theory Spec2Isabelle
  imports Complex_Main
begin

section \<open>Python values, exceptions and sequencing\<close>

text \<open>
  The monitor is a Python program, and the fields of its \<open>Reading\<close> dataclass hold
  whatever value was put there: the annotations (\<open>Optional[float]\<close>, ...) are not
  enforced, and \<open>is_sane\<close> exists to check them at run time. A field is therefore a
  dynamically typed value. Floats are modelled by the reals (no rounding, no NaN,
  no infinity), integers are unbounded, a \<open>datetime\<close> is an aware instant with
  microsecond resolution and is modelled by its number of microseconds since the
  epoch. Lists and dictionaries occur because the sensor's JSON body may contain them.
\<close>

datatype pyval =
    PNone
  | PBool bool
  | PInt int
  | PFloat real
  | PStr string
  | PDatetime int
  | PList "pyval list"
  | PDict "(string \<times> pyval) list"

text \<open>The exception classes the modelled code can raise, by their Python names.\<close>

datatype error =
    IndexError
  | KeyError
  | TypeError
  | ValueError
  | AttributeError
  | ZeroDivisionError
  | JSONDecodeError
  | IntegrityError
  | OperationalError

text \<open>
  The specification speaks of error kinds of its own (\<open>DecodeError\<close>,
  \<open>DuplicateArchiveRecord\<close>, \<open>EmptyAggregationError\<close>, ...). The code defines none
  of them: what a caller sees is one of the classes above, under the following name.
\<close>

definition class_name :: "error \<Rightarrow> string" where
  "class_name e =
     (case e of
        IndexError \<Rightarrow> ''IndexError''
      | KeyError \<Rightarrow> ''KeyError''
      | TypeError \<Rightarrow> ''TypeError''
      | ValueError \<Rightarrow> ''ValueError''
      | AttributeError \<Rightarrow> ''AttributeError''
      | ZeroDivisionError \<Rightarrow> ''ZeroDivisionError''
      | JSONDecodeError \<Rightarrow> ''requests.exceptions.JSONDecodeError''
      | IntegrityError \<Rightarrow> ''sqlite3.IntegrityError''
      | OperationalError \<Rightarrow> ''sqlite3.OperationalError'')"

text \<open>A list of statements run in order on a state; the first exception ends the run.\<close>

fun run_lines :: "('s \<Rightarrow> error + 's) list \<Rightarrow> 's \<Rightarrow> error + 's" where
  "run_lines [] s = Inr s"
| "run_lines (f # fs) s = (case f s of Inl e \<Rightarrow> Inl e | Inr s' \<Rightarrow> run_lines fs s')"

text \<open>\<open>bool\<close> is a subclass of \<open>int\<close>: \<open>True + 1.5\<close> is \<open>2.5\<close>.\<close>

fun is_number :: "pyval \<Rightarrow> bool" where
  "is_number (PBool b) = True"
| "is_number (PInt n) = True"
| "is_number (PFloat x) = True"
| "is_number v = False"

fun is_integral :: "pyval \<Rightarrow> bool" where
  "is_integral (PBool b) = True"
| "is_integral (PInt n) = True"
| "is_integral v = False"

fun int_val :: "pyval \<Rightarrow> int" where
  "int_val (PBool b) = (if b then 1 else 0)"
| "int_val (PInt n) = n"
| "int_val v = 0"

fun num_val :: "pyval \<Rightarrow> real" where
  "num_val (PFloat x) = x"
| "num_val v = real_of_int (int_val v)"

text \<open>
  \<open>a + b\<close>: numbers add (two integers give an integer, otherwise a float), strings
  and lists concatenate, every other pair raises \<open>TypeError\<close>.
\<close>

fun py_add :: "pyval \<Rightarrow> pyval \<Rightarrow> error + pyval" where
  "py_add (PStr s) (PStr t) = Inr (PStr (s @ t))"
| "py_add (PList xs) (PList ys) = Inr (PList (xs @ ys))"
| "py_add a b =
     (if is_number a \<and> is_number b
      then (if is_integral a \<and> is_integral b
            then Inr (PInt (int_val a + int_val b))
            else Inr (PFloat (num_val a + num_val b)))
      else Inl TypeError)"

text \<open>\<open>a / count\<close> for a float \<open>count\<close>: true division, always a float.\<close>

definition py_truediv :: "pyval \<Rightarrow> real \<Rightarrow> error + pyval" where
  "py_truediv a count =
     (if is_number a
      then (if count = 0 then Inl ZeroDivisionError else Inr (PFloat (num_val a / count)))
      else Inl TypeError)"

section \<open>The Reading dataclass\<close>

record Reading =
  measurementTime :: pyval
  serialno :: pyval
  wifi :: pyval
  pm01 :: pyval
  pm02 :: pyval
  pm10 :: pyval
  pm02Compensated :: pyval
  pm01Standard :: pyval
  pm02Standard :: pyval
  pm10Standard :: pyval
  rco2 :: pyval
  pm003Count :: pyval
  pm005Count :: pyval
  pm01Count :: pyval
  pm02Count :: pyval
  pm50Count :: pyval
  pm10Count :: pyval
  atmp :: pyval
  atmpCompensated :: pyval
  rhum :: pyval
  rhumCompensated :: pyval
  tvocIndex :: pyval
  tvocRaw :: pyval
  noxIndex :: pyval
  noxRaw :: pyval
  boot :: pyval
  bootCount :: pyval
  ledMode :: pyval
  firmware :: pyval
  model :: pyval

text \<open>
  The 23 averaged channels, each with its attribute read and its attribute write, in
  the order in which \<open>compute_avg\<close> treats them (the same order in both of its blocks).
\<close>

type_synonym channel = "(Reading \<Rightarrow> pyval) \<times> ((pyval \<Rightarrow> pyval) \<Rightarrow> Reading \<Rightarrow> Reading)"

definition channels :: "channel list" where
  "channels =
     [(wifi, wifi_update), (pm01, pm01_update), (pm02, pm02_update), (pm10, pm10_update),
      (pm02Compensated, pm02Compensated_update), (pm01Standard, pm01Standard_update),
      (pm02Standard, pm02Standard_update), (pm10Standard, pm10Standard_update),
      (rco2, rco2_update), (pm003Count, pm003Count_update),
      (pm005Count, pm005Count_update), (pm01Count, pm01Count_update),
      (pm02Count, pm02Count_update), (pm50Count, pm50Count_update),
      (pm10Count, pm10Count_update), (atmp, atmp_update),
      (atmpCompensated, atmpCompensated_update), (rhum, rhum_update),
      (rhumCompensated, rhumCompensated_update), (tvocIndex, tvocIndex_update),
      (tvocRaw, tvocRaw_update), (noxIndex, noxIndex_update), (noxRaw, noxRaw_update)]"

section \<open>Service.compute_avg\<close>

text \<open>
  One line of the summing block,
  \<^verbatim>\<open>summed_reading.X = summed_reading.X + reading.X
      if summed_reading.X is not None and reading.X is not None else None\<close>
\<close>

definition add_channel :: "pyval \<Rightarrow> pyval \<Rightarrow> error + pyval" where
  "add_channel s r = (if s \<noteq> PNone \<and> r \<noteq> PNone then py_add s r else Inr PNone)"

definition sum_line :: "Reading \<Rightarrow> channel \<Rightarrow> Reading \<Rightarrow> error + Reading" where
  "sum_line reading ch summed =
     (case add_channel (fst ch summed) (fst ch reading) of
        Inl e \<Rightarrow> Inl e
      | Inr v \<Rightarrow> Inr (snd ch (\<lambda>_. v) summed))"

text \<open>
  The body of \<^verbatim>\<open>for reading in readings[1:]\<close>: seven fields are overwritten by the
  current element's, then the 23 channel lines run.
\<close>

definition loop_body :: "Reading \<Rightarrow> Reading \<Rightarrow> error + Reading" where
  "loop_body summed reading =
     run_lines (map (sum_line reading) channels)
       (summed\<lparr>measurementTime := measurementTime reading,
               serialno := serialno reading,
               ledMode := ledMode reading,
               firmware := firmware reading,
               model := model reading,
               boot := boot reading,
               bootCount := bootCount reading\<rparr>)"

fun sum_loop :: "Reading \<Rightarrow> Reading list \<Rightarrow> error + Reading" where
  "sum_loop summed [] = Inr summed"
| "sum_loop summed (reading # rest) =
     (case loop_body summed reading of
        Inl e \<Rightarrow> Inl e
      | Inr summed' \<Rightarrow> sum_loop summed' rest)"

text \<open>
  One line of the averaging block,
  \<^verbatim>\<open>avg_reading.X = avg_reading.X / count if avg_reading.X is not None else None\<close>
\<close>

definition div_line :: "real \<Rightarrow> channel \<Rightarrow> Reading \<Rightarrow> error + Reading" where
  "div_line count ch avg =
     (if fst ch avg \<noteq> PNone
      then (case py_truediv (fst ch avg) count of
              Inl e \<Rightarrow> Inl e
            | Inr v \<Rightarrow> Inr (snd ch (\<lambda>_. v) avg))
      else Inr (snd ch (\<lambda>_. PNone) avg))"

text \<open>
  \<open>compute_avg\<close> on the values of the list's elements. \<open>readings[0]\<close> raises
  \<open>IndexError\<close> on the empty list; the two \<open>copy.copy\<close> calls are invisible at this
  level (the store-level model further down makes them explicit).
\<close>

definition compute_avg :: "Reading list \<Rightarrow> error + Reading" where
  "compute_avg readings =
     (case readings of
        [] \<Rightarrow> Inl IndexError
      | first # rest \<Rightarrow>
          (case sum_loop first rest of
             Inl e \<Rightarrow> Inl e
           | Inr summed_reading \<Rightarrow>
               run_lines (map (div_line (real (length readings))) channels) summed_reading))"

section \<open>Service.parse_response\<close>

text \<open>
  \<open>j[key]\<close> for a string key: a dictionary looks the key up and raises \<open>KeyError\<close>
  when it is missing; every other JSON value raises \<open>TypeError\<close> (a list or a string
  wants integer indices, the rest is not subscriptable).
\<close>

definition subscript :: "pyval \<Rightarrow> string \<Rightarrow> error + pyval" where
  "subscript j key =
     (case j of
        PDict items \<Rightarrow> (case map_of items key of None \<Rightarrow> Inl KeyError | Some v \<Rightarrow> Inr v)
      | _ \<Rightarrow> Inl TypeError)"

text \<open>
  \<open>float(v)\<close>. The parser of Python's \<open>float\<close> for strings is a parameter
  (\<open>None\<close> where it raises \<open>ValueError\<close>).
\<close>

definition py_float :: "(string \<Rightarrow> real option) \<Rightarrow> pyval \<Rightarrow> error + pyval" where
  "py_float float_of_str v =
     (case v of
        PFloat x \<Rightarrow> Inr (PFloat x)
      | PInt n \<Rightarrow> Inr (PFloat (real_of_int n))
      | PBool b \<Rightarrow> Inr (PFloat (if b then 1 else 0))
      | PStr s \<Rightarrow> (case float_of_str s of None \<Rightarrow> Inl ValueError | Some x \<Rightarrow> Inr (PFloat x))
      | _ \<Rightarrow> Inl TypeError)"

text \<open>\<^verbatim>\<open>float(j[key]) if j[key] is not None else None\<close>\<close>

definition float_field :: "(string \<Rightarrow> real option) \<Rightarrow> pyval \<Rightarrow> string \<Rightarrow> error + pyval" where
  "float_field float_of_str j key =
     (case subscript j key of
        Inl e \<Rightarrow> Inl e
      | Inr v \<Rightarrow> if v \<noteq> PNone then py_float float_of_str v else Inr PNone)"

text \<open>
  One keyword argument of the \<open>Reading(...)\<close> call: its value is computed (or raises)
  and becomes the field.
\<close>

definition set_field ::
  "((pyval \<Rightarrow> pyval) \<Rightarrow> Reading \<Rightarrow> Reading) \<Rightarrow> error + pyval \<Rightarrow> Reading \<Rightarrow> error + Reading" where
  "set_field upd rhs r = (case rhs of Inl e \<Rightarrow> Inl e | Inr v \<Rightarrow> Inr (upd (\<lambda>_. v) r))"

definition blank_reading :: Reading where
  "blank_reading =
     \<lparr>measurementTime = PNone, serialno = PNone, wifi = PNone, pm01 = PNone, pm02 = PNone,
      pm10 = PNone, pm02Compensated = PNone, pm01Standard = PNone, pm02Standard = PNone,
      pm10Standard = PNone, rco2 = PNone, pm003Count = PNone, pm005Count = PNone,
      pm01Count = PNone, pm02Count = PNone, pm50Count = PNone, pm10Count = PNone,
      atmp = PNone, atmpCompensated = PNone, rhum = PNone, rhumCompensated = PNone,
      tvocIndex = PNone, tvocRaw = PNone, noxIndex = PNone, noxRaw = PNone, boot = PNone,
      bootCount = PNone, ledMode = PNone, firmware = PNone, model = PNone\<rparr>"

text \<open>
  \<open>parse_response\<close>. \<open>body\<close> is what \<open>response.json()\<close> returns, \<open>None\<close> when the
  body is not JSON and the call raises; \<open>now\<close> is the clock read by \<open>utc_now()\<close>. The
  arguments are evaluated in the order written, so the first one that raises decides
  the exception; the \<open>except\<close> clause logs and re-raises.
\<close>

definition parse_response ::
  "(string \<Rightarrow> real option) \<Rightarrow> int \<Rightarrow> pyval option \<Rightarrow> error + Reading" where
  "parse_response float_of_str now body =
     (case body of
        None \<Rightarrow> Inl JSONDecodeError
      | Some j \<Rightarrow>
          run_lines
            [set_field measurementTime_update (Inr (PDatetime now)),
             set_field serialno_update (subscript j ''serialno''),
             set_field wifi_update (float_field float_of_str j ''wifi''),
             set_field pm01_update (float_field float_of_str j ''pm01''),
             set_field pm02_update (float_field float_of_str j ''pm02''),
             set_field pm10_update (float_field float_of_str j ''pm10''),
             set_field pm02Compensated_update (float_field float_of_str j ''pm02Compensated''),
             set_field pm01Standard_update (float_field float_of_str j ''pm01Standard''),
             set_field pm02Standard_update (float_field float_of_str j ''pm02Standard''),
             set_field pm10Standard_update (float_field float_of_str j ''pm10Standard''),
             set_field rco2_update (float_field float_of_str j ''rco2''),
             set_field pm003Count_update (float_field float_of_str j ''pm003Count''),
             set_field pm005Count_update (float_field float_of_str j ''pm005Count''),
             set_field pm01Count_update (float_field float_of_str j ''pm01Count''),
             set_field pm02Count_update (float_field float_of_str j ''pm02Count''),
             set_field pm50Count_update (float_field float_of_str j ''pm50Count''),
             set_field pm10Count_update (float_field float_of_str j ''pm10Count''),
             set_field atmp_update (float_field float_of_str j ''atmp''),
             set_field atmpCompensated_update (float_field float_of_str j ''atmpCompensated''),
             set_field rhum_update (float_field float_of_str j ''rhum''),
             set_field rhumCompensated_update (float_field float_of_str j ''rhumCompensated''),
             set_field tvocIndex_update (float_field float_of_str j ''tvocIndex''),
             set_field tvocRaw_update (float_field float_of_str j ''tvocRaw''),
             set_field noxIndex_update (float_field float_of_str j ''noxIndex''),
             set_field noxRaw_update (float_field float_of_str j ''noxRaw''),
             set_field boot_update (subscript j ''boot''),
             set_field bootCount_update (subscript j ''bootCount''),
             set_field ledMode_update (subscript j ''ledMode''),
             set_field firmware_update (subscript j ''firmware''),
             set_field model_update (subscript j ''model'')]
            blank_reading)"

section \<open>Service.is_sane\<close>

fun isinstance_datetime :: "pyval \<Rightarrow> bool" where
  "isinstance_datetime (PDatetime t) = True"
| "isinstance_datetime v = False"

fun isinstance_str :: "pyval \<Rightarrow> bool" where
  "isinstance_str (PStr s) = True"
| "isinstance_str v = False"

fun isinstance_float :: "pyval \<Rightarrow> bool" where
  "isinstance_float (PFloat x) = True"
| "isinstance_float v = False"

text \<open>\<open>isinstance(True, int)\<close> holds.\<close>

fun isinstance_int :: "pyval \<Rightarrow> bool" where
  "isinstance_int (PInt n) = True"
| "isinstance_int (PBool b) = True"
| "isinstance_int v = False"

text \<open>\<open>dt.timestamp()\<close>: seconds since the epoch, as a float.\<close>

definition timestamp_of :: "int \<Rightarrow> real" where
  "timestamp_of t = real_of_int t / 1000000"

text \<open>
  \<open>is_sane\<close>. \<open>now\<close> is the clock read by \<open>utc_now()\<close>; \<open>fmt_f\<close> is Python's
  \<^verbatim>\<open>'%f' % x\<close>, which only shapes the text of the second reason.
\<close>

definition is_sane :: "(real \<Rightarrow> string) \<Rightarrow> int \<Rightarrow> Reading \<Rightarrow> bool \<times> string" where
  "is_sane fmt_f now reading =
     (if \<not> isinstance_datetime (measurementTime reading)
      then (False, ''measurementTime not instance of datetime'')
      else
        (let delta_seconds =
               timestamp_of now -
               timestamp_of (case measurementTime reading of PDatetime t \<Rightarrow> t | _ \<Rightarrow> 0)
         in
         if \<bar>delta_seconds\<bar> > 20
         then (False, ''measurementTime more than 20s off: '' @ fmt_f delta_seconds)
         else if serialno reading \<noteq> PNone \<and> \<not> isinstance_str (serialno reading)
         then (False, ''serialno not instance of str'')
         else if wifi reading \<noteq> PNone \<and> \<not> isinstance_float (wifi reading)
         then (False, ''wifi not instance of float'')
         else if pm01 reading \<noteq> PNone \<and> \<not> isinstance_float (pm01 reading)
         then (False, ''pm01 not instance of float'')
         else if pm02 reading \<noteq> PNone \<and> \<not> isinstance_float (pm02 reading)
         then (False, ''pm02 not instance of float'')
         else if pm10 reading \<noteq> PNone \<and> \<not> isinstance_float (pm10 reading)
         then (False, ''pm10 not instance of float'')
         else if pm02Compensated reading \<noteq> PNone \<and> \<not> isinstance_float (pm02Compensated reading)
         then (False, ''pm02Compensated not instance of float'')
         else if pm01Standard reading \<noteq> PNone \<and> \<not> isinstance_float (pm01Standard reading)
         then (False, ''pm01Standard not instance of float'')
         else if pm02Standard reading \<noteq> PNone \<and> \<not> isinstance_float (pm02Standard reading)
         then (False, ''pm02Standard not instance of float'')
         else if pm10Standard reading \<noteq> PNone \<and> \<not> isinstance_float (pm10Standard reading)
         then (False, ''pm10Standard not instance of float'')
         else if rco2 reading \<noteq> PNone \<and> \<not> isinstance_float (rco2 reading)
         then (False, ''rco2 not instance of float'')
         else if pm003Count reading \<noteq> PNone \<and> \<not> isinstance_float (pm003Count reading)
         then (False, ''pm003Count not instance of float'')
         else if pm005Count reading \<noteq> PNone \<and> \<not> isinstance_float (pm005Count reading)
         then (False, ''pm005Count not instance of float'')
         else if pm01Count reading \<noteq> PNone \<and> \<not> isinstance_float (pm01Count reading)
         then (False, ''pm01Count not instance of float'')
         else if pm02Count reading \<noteq> PNone \<and> \<not> isinstance_float (pm02Count reading)
         then (False, ''pm02Count not instance of float'')
         else if pm50Count reading \<noteq> PNone \<and> \<not> isinstance_float (pm50Count reading)
         then (False, ''pm50Count not instance of float'')
         else if pm10Count reading \<noteq> PNone \<and> \<not> isinstance_float (pm10Count reading)
         then (False, ''pm10Count not instance of float'')
         else if atmp reading \<noteq> PNone \<and> \<not> isinstance_float (atmp reading)
         then (False, ''atmp not instance of float'')
         else if atmpCompensated reading \<noteq> PNone \<and> \<not> isinstance_float (atmpCompensated reading)
         then (False, ''atmpCompensated not instance of float'')
         else if rhum reading \<noteq> PNone \<and> \<not> isinstance_float (rhum reading)
         then (False, ''rhum not instance of float'')
         else if rhumCompensated reading \<noteq> PNone \<and> \<not> isinstance_float (rhumCompensated reading)
         then (False, ''rhumCompensated not instance of float'')
         else if tvocIndex reading \<noteq> PNone \<and> \<not> isinstance_float (tvocIndex reading)
         then (False, ''tvocIndex not instance of float'')
         else if tvocRaw reading \<noteq> PNone \<and> \<not> isinstance_float (tvocRaw reading)
         then (False, ''tvocRaw not instance of float'')
         else if noxIndex reading \<noteq> PNone \<and> \<not> isinstance_float (noxIndex reading)
         then (False, ''noxIndex not instance of float'')
         else if noxRaw reading \<noteq> PNone \<and> \<not> isinstance_float (noxRaw reading)
         then (False, ''noxRaw not instance of float'')
         else if boot reading \<noteq> PNone \<and> \<not> isinstance_int (boot reading)
         then (False, ''boot not instance of int'')
         else if bootCount reading \<noteq> PNone \<and> \<not> isinstance_int (bootCount reading)
         then (False, ''bootCount not instance of int'')
         else if ledMode reading \<noteq> PNone \<and> \<not> isinstance_str (ledMode reading)
         then (False, ''ledMode not instance of str'')
         else if firmware reading \<noteq> PNone \<and> \<not> isinstance_str (firmware reading)
         then (False, ''firmware not instance of str'')
         else if model reading \<noteq> PNone \<and> \<not> isinstance_str (model reading)
         then (False, ''model not instance of str'')
         else (True, [])))"

section \<open>Service.compute_next_event\<close>

datatype Event = POLL | ARCHIVE

text \<open>The timing fields of a \<open>Service\<close> object, whole seconds read from the configuration.\<close>

record Service =
  pollfreq_secs :: int
  pollfreq_offset :: int
  arcint_secs :: int

text \<open>\<open>int(x)\<close> of a float truncates towards zero.\<close>

definition py_int :: "real \<Rightarrow> int" where
  "py_int x = (if 0 \<le> x then \<lfloor>x\<rfloor> else \<lceil>x\<rceil>)"

text \<open>
  \<open>compute_next_event\<close>; \<open>now\<close> is \<open>time.time()\<close>. A zero interval makes the
  division raise.
\<close>

definition compute_next_event :: "Service \<Rightarrow> bool \<Rightarrow> real \<Rightarrow> error + Event \<times> real" where
  "compute_next_event self first_time now =
     (if pollfreq_secs self = 0 then Inl ZeroDivisionError
      else
        (let next_poll_event =
               py_int (now / real_of_int (pollfreq_secs self)) * pollfreq_secs self +
               pollfreq_secs self
         in
         if arcint_secs self = 0 then Inl ZeroDivisionError
         else
           (let next_arc_event =
                  py_int (now / real_of_int (arcint_secs self)) * arcint_secs self +
                  arcint_secs self;
                event = (if next_poll_event = next_arc_event then ARCHIVE else POLL);
                secs_to_event = real_of_int next_poll_event - now;
                secs_to_event = secs_to_event + real_of_int (pollfreq_offset self)
            in Inr (event, secs_to_event))))"

section \<open>The Database class\<close>

text \<open>
  The table \<open>Reading\<close> of the SQLite file, as the list of its rows in insertion order.
  A row has the two key columns and, in \<open>columns\<close>, the 29 value columns
  \<open>serialno\<close> ... \<open>model\<close> in the order of the \<open>INSERT\<close> and \<open>SELECT\<close> statements.
  \<open>timestamp\<close> is declared \<open>REAL NOT NULL\<close> and is always written from a float.
\<close>

datatype sqlval = SNull | SInt int | SReal real | SText string

record db_row =
  record_type :: int
  timestamp :: real
  columns :: "sqlval list"

type_synonym table = "db_row list"

definition RecordType_CURRENT :: int where "RecordType_CURRENT = 0"
definition RecordType_ARCHIVE :: int where "RecordType_ARCHIVE = 1"
definition RecordType_TWO_MINUTE :: int where "RecordType_TWO_MINUTE = 2"

text \<open>The column affinities declared by \<open>CREATE TABLE\<close>.\<close>

datatype affinity = AffText | AffReal | AffInteger

text \<open>\<^verbatim>\<open>r.X if r.X is not None else 'NULL'\<close>: an absent field becomes the string \<open>NULL\<close>.\<close>

definition sql_param :: "pyval \<Rightarrow> pyval" where
  "sql_param v = (if v \<noteq> PNone then v else PStr ''NULL'')"

text \<open>
  A character that Python's \<open>repr\<close> prints as itself and that ends no SQL literal:
  printable ASCII other than the two quotes and the backslash.
\<close>

definition plain_char :: "char \<Rightarrow> bool" where
  "plain_char c =
     (let n = (of_char c :: nat) in 32 \<le> n \<and> n \<le> 126 \<and> n \<noteq> 34 \<and> n \<noteq> 39 \<and> n \<noteq> 92)"

definition digit_char :: "char \<Rightarrow> bool" where
  "digit_char c = (let n = (of_char c :: nat) in 48 \<le> n \<and> n \<le> 57)"

text \<open>
  The value SQLite stores in a column of the given affinity when the statement holds
  the text \<^verbatim>\<open>'%r' % v\<close> at that place.
  \<^item> A float is printed as a numeric literal. In a \<open>REAL\<close> column it stays a float; in
    an \<open>INTEGER\<close> column it is stored as an integer when it has no fractional part.
  \<^item> An integer within 64 bits is printed in decimal: an integer in an \<open>INTEGER\<close>
    column, a float in a \<open>REAL\<close> column.
  \<^item> A string of plain characters is printed between single quotes, which is an SQL
    string literal of the same text. In a \<open>TEXT\<close> column it is stored as it is; in
    a numeric column it is stored as text when it does not look like a number, which
    is certain when it has no digit.
  \<^item> Everything else (\<open>None\<close>, \<open>True\<close>, a list, a string with a quote, a number
    in a \<open>TEXT\<close> column, ...) depends on details of \<open>repr\<close> and of SQLite that are
    not modelled; the parameter \<open>other\<close> stands for what happens there, an SQL error
    included.
\<close>

definition stored_value ::
  "(affinity \<Rightarrow> pyval \<Rightarrow> error + sqlval) \<Rightarrow> affinity \<Rightarrow> pyval \<Rightarrow> error + sqlval" where
  "stored_value other aff v =
     (case (aff, v) of
        (AffReal, PFloat x) \<Rightarrow> Inr (SReal x)
      | (AffInteger, PFloat x) \<Rightarrow>
          (if x = real_of_int \<lfloor>x\<rfloor> \<and> - (2 ^ 63) \<le> \<lfloor>x\<rfloor> \<and> \<lfloor>x\<rfloor> < 2 ^ 63
           then Inr (SInt \<lfloor>x\<rfloor>) else Inr (SReal x))
      | (AffReal, PInt n) \<Rightarrow>
          (if - (2 ^ 63) \<le> n \<and> n < 2 ^ 63 then Inr (SReal (real_of_int n)) else other aff v)
      | (AffInteger, PInt n) \<Rightarrow>
          (if - (2 ^ 63) \<le> n \<and> n < 2 ^ 63 then Inr (SInt n) else other aff v)
      | (AffText, PStr s) \<Rightarrow> (if list_all plain_char s then Inr (SText s) else other aff v)
      | (_, PStr s) \<Rightarrow>
          (if list_all plain_char s \<and> \<not> list_ex digit_char s then Inr (SText s)
           else other aff v)
      | _ \<Rightarrow> other aff v)"

text \<open>The 29 values of the \<open>INSERT\<close> statement, in its order, each with its column's affinity.\<close>

definition insert_params :: "Reading \<Rightarrow> (affinity \<times> pyval) list" where
  "insert_params r =
     [(AffText, sql_param (serialno r)),
      (AffReal, sql_param (wifi r)),
      (AffReal, sql_param (pm01 r)),
      (AffReal, sql_param (pm02 r)),
      (AffReal, sql_param (pm10 r)),
      (AffReal, sql_param (pm02Compensated r)),
      (AffReal, sql_param (pm01Standard r)),
      (AffReal, sql_param (pm02Standard r)),
      (AffReal, sql_param (pm10Standard r)),
      (AffReal, sql_param (rco2 r)),
      (AffReal, sql_param (pm003Count r)),
      (AffReal, sql_param (pm005Count r)),
      (AffReal, sql_param (pm01Count r)),
      (AffReal, sql_param (pm02Count r)),
      (AffReal, sql_param (pm50Count r)),
      (AffReal, sql_param (pm10Count r)),
      (AffReal, sql_param (atmp r)),
      (AffReal, sql_param (atmpCompensated r)),
      (AffReal, sql_param (rhum r)),
      (AffReal, sql_param (rhumCompensated r)),
      (AffReal, sql_param (tvocIndex r)),
      (AffReal, sql_param (tvocRaw r)),
      (AffReal, sql_param (noxIndex r)),
      (AffReal, sql_param (noxRaw r)),
      (AffInteger, sql_param (boot r)),
      (AffInteger, sql_param (bootCount r)),
      (AffText, sql_param (ledMode r)),
      (AffText, sql_param (firmware r)),
      (AffText, sql_param (model r))]"

fun collect :: "(error + 'a) list \<Rightarrow> error + 'a list" where
  "collect [] = Inr []"
| "collect (x # xs) =
     (case x of
        Inl e \<Rightarrow> Inl e
      | Inr v \<Rightarrow> (case collect xs of Inl e \<Rightarrow> Inl e | Inr vs \<Rightarrow> Inr (v # vs)))"

text \<open>The values as stored; the first place where the statement is no SQL raises.\<close>

definition insert_values ::
  "(affinity \<Rightarrow> pyval \<Rightarrow> error + sqlval) \<Rightarrow> Reading \<Rightarrow> error + sqlval list" where
  "insert_values other r = collect (map (\<lambda>(aff, v). stored_value other aff v) (insert_params r))"

text \<open>
  \<open>save_reading\<close>. \<open>r.measurementTime.timestamp()\<close> needs a \<open>datetime\<close>; the
  timestamp is written with \<^verbatim>\<open>%f\<close>, six decimals, which is exact for a whole number of
  microseconds. Inside the \<open>with\<close> block the rows of the same type are deleted first
  when the type is \<open>CURRENT\<close> or \<open>TWO_MINUTE\<close>, then the row is inserted. The primary
  key is \<open>(record_type, timestamp)\<close>. When the \<open>INSERT\<close> raises, the connection's
  context manager rolls the transaction back, the \<open>DELETE\<close> with it, so an exception
  leaves the table as it was: the function returns the exception alone.
\<close>

definition save_reading ::
  "(affinity \<Rightarrow> pyval \<Rightarrow> error + sqlval) \<Rightarrow> int \<Rightarrow> Reading \<Rightarrow> table \<Rightarrow> error + table" where
  "save_reading other rtype r tbl =
     (case measurementTime r of
        PDatetime t \<Rightarrow>
          (let stamp = timestamp_of t;
               tbl1 = (if rtype = RecordType_CURRENT
                       then filter (\<lambda>row. record_type row \<noteq> RecordType_CURRENT) tbl else tbl);
               tbl2 = (if rtype = RecordType_TWO_MINUTE
                       then filter (\<lambda>row. record_type row \<noteq> RecordType_TWO_MINUTE) tbl1 else tbl1)
           in
           case insert_values other r of
             Inl e \<Rightarrow> Inl e
           | Inr vals \<Rightarrow>
               if list_ex (\<lambda>row. record_type row = rtype \<and> timestamp row = stamp) tbl2
               then Inl IntegrityError
               else Inr (tbl2 @ [\<lparr>record_type = rtype, timestamp = stamp, columns = vals\<rparr>]))
      | _ \<Rightarrow> Inl AttributeError)"

definition save_current_reading ::
  "(affinity \<Rightarrow> pyval \<Rightarrow> error + sqlval) \<Rightarrow> Reading \<Rightarrow> table \<Rightarrow> error + table" where
  "save_current_reading other r tbl = save_reading other RecordType_CURRENT r tbl"

definition save_two_minute_reading ::
  "(affinity \<Rightarrow> pyval \<Rightarrow> error + sqlval) \<Rightarrow> Reading \<Rightarrow> table \<Rightarrow> error + table" where
  "save_two_minute_reading other r tbl = save_reading other RecordType_TWO_MINUTE r tbl"

definition save_archive_reading ::
  "(affinity \<Rightarrow> pyval \<Rightarrow> error + sqlval) \<Rightarrow> Reading \<Rightarrow> table \<Rightarrow> error + table" where
  "save_archive_reading other r tbl = save_reading other RecordType_ARCHIVE r tbl"

text \<open>What the \<open>sqlite3\<close> module hands to Python for a stored value.\<close>

fun py_of_sql :: "sqlval \<Rightarrow> pyval" where
  "py_of_sql SNull = PNone"
| "py_of_sql (SInt n) = PInt n"
| "py_of_sql (SReal x) = PFloat x"
| "py_of_sql (SText s) = PStr s"

text \<open>
  \<open>datetime.fromtimestamp(x, tz=UTC)\<close>: a number of seconds, rounded to the
  microsecond (a stored timestamp is a whole number of microseconds, so the rounding
  mode does not matter).
\<close>

definition fromtimestamp :: "pyval \<Rightarrow> error + pyval" where
  "fromtimestamp v =
     (case v of
        PFloat x \<Rightarrow> Inr (PDatetime (round (x * 1000000)))
      | PInt n \<Rightarrow> Inr (PDatetime (n * 1000000))
      | PBool b \<Rightarrow> Inr (PDatetime (if b then 1000000 else 0))
      | _ \<Rightarrow> Inl TypeError)"

text \<open>\<open>create_reading_from_row\<close>: \<open>row[0]\<close> ... \<open>row[29]\<close> of a result row.\<close>

definition create_reading_from_row :: "pyval list \<Rightarrow> error + Reading" where
  "create_reading_from_row row =
     (case fromtimestamp (row ! 0) of
        Inl e \<Rightarrow> Inl e
      | Inr mt \<Rightarrow>
          Inr \<lparr>measurementTime = mt,
               serialno = row ! 1,
               wifi = row ! 2,
               pm01 = row ! 3,
               pm02 = row ! 4,
               pm10 = row ! 5,
               pm02Compensated = row ! 6,
               pm01Standard = row ! 7,
               pm02Standard = row ! 8,
               pm10Standard = row ! 9,
               rco2 = row ! 10,
               pm003Count = row ! 11,
               pm005Count = row ! 12,
               pm01Count = row ! 13,
               pm02Count = row ! 14,
               pm50Count = row ! 15,
               pm10Count = row ! 16,
               atmp = row ! 17,
               atmpCompensated = row ! 18,
               rhum = row ! 19,
               rhumCompensated = row ! 20,
               tvocIndex = row ! 21,
               tvocRaw = row ! 22,
               noxIndex = row ! 23,
               noxRaw = row ! 24,
               boot = row ! 25,
               bootCount = row ! 26,
               ledMode = row ! 27,
               firmware = row ! 28,
               model = row ! 29\<rparr>)"

text \<open>
  The \<open>SELECT\<close> of \<open>fetch_readings\<close>: the rows of the type with
  \<open>timestamp > since_ts\<close> and, when given, \<open>timestamp <= max_ts\<close>, ordered by
  timestamp (the second sort key, \<open>record_type\<close>, is constant here), cut at \<open>limit\<close>
  rows when a limit is given (a negative \<open>LIMIT\<close> is no limit in SQLite). Each result
  row is the timestamp followed by the 29 value columns.
\<close>

definition select_readings :: "int \<Rightarrow> int \<Rightarrow> int option \<Rightarrow> int option \<Rightarrow> table \<Rightarrow> pyval list list" where
  "select_readings rtype since_ts max_ts limit tbl =
     (let matching =
            filter (\<lambda>row. record_type row = rtype \<and> timestamp row > real_of_int since_ts \<and>
                          (case max_ts of None \<Rightarrow> True | Some m \<Rightarrow> timestamp row \<le> real_of_int m))
              tbl;
          ordered = sort_key timestamp matching;
          limited = (case limit of
                       None \<Rightarrow> ordered
                     | Some n \<Rightarrow> if n < 0 then ordered else take (nat n) ordered)
      in map (\<lambda>row. PFloat (timestamp row) # map py_of_sql (columns row)) limited)"

text \<open>\<open>fetch_readings\<close>; the generator is modelled by the list of what it yields.\<close>

definition fetch_readings ::
  "int \<Rightarrow> int \<Rightarrow> int option \<Rightarrow> int option \<Rightarrow> table \<Rightarrow> error + Reading list" where
  "fetch_readings rtype since_ts max_ts limit tbl =
     collect (map create_reading_from_row (select_readings rtype since_ts max_ts limit tbl))"

definition fetch_current_readings :: "table \<Rightarrow> error + Reading list" where
  "fetch_current_readings tbl = fetch_readings RecordType_CURRENT 0 None None tbl"

definition fetch_two_minute_readings :: "table \<Rightarrow> error + Reading list" where
  "fetch_two_minute_readings tbl = fetch_readings RecordType_TWO_MINUTE 0 None None tbl"

definition fetch_archive_readings ::
  "int \<Rightarrow> int option \<Rightarrow> int option \<Rightarrow> table \<Rightarrow> error + Reading list" where
  "fetch_archive_readings since_ts max_ts limit tbl =
     fetch_readings RecordType_ARCHIVE since_ts max_ts limit tbl"

section \<open>The two averaging steps of Service.do_loop\<close>

text \<open>
  The block that writes the two-minute average, on the table and the short window:
  nothing is written for an empty window; otherwise the average takes the time of the
  last reading and replaces the \<open>TWO_MINUTE\<close> row, an exception of the save being
  caught and logged. \<open>compute_avg\<close> stands outside the \<open>try\<close>.
\<close>

definition two_minute_block ::
  "(affinity \<Rightarrow> pyval \<Rightarrow> error + sqlval) \<Rightarrow> table \<Rightarrow> Reading list \<Rightarrow> error + table" where
  "two_minute_block other tbl two_minute_readings =
     (if length two_minute_readings = 0 then Inr tbl
      else
        (case compute_avg two_minute_readings of
           Inl e \<Rightarrow> Inl e
         | Inr avg_reading \<Rightarrow>
             (let avg_reading =
                    avg_reading\<lparr>measurementTime := measurementTime (last two_minute_readings)\<rparr>
              in case save_two_minute_reading other avg_reading tbl of
                   Inl e \<Rightarrow> Inr tbl
                 | Inr tbl' \<Rightarrow> Inr tbl')))"


text \<open>
  The record written at an archive boundary: the average of the long window, with
  its time set to \<open>utc_now()\<close> and then snapped.
  \<^verbatim>\<open>calendar.timegm((t + timedelta(seconds=5)).utctimetuple())\<close> is the whole number
  of seconds of \<open>t + 5s\<close>; the division by \<open>arcint_secs\<close> is a true division whose
  result \<open>int\<close> truncates. \<open>compute_avg\<close> and the arithmetic stand outside the
  \<open>try\<close>, so their exceptions leave the loop.
\<close>

definition archive_record :: "Service \<Rightarrow> int \<Rightarrow> Reading list \<Rightarrow> error + Reading" where
  "archive_record self now archive_readings =
     (case compute_avg archive_readings of
        Inl e \<Rightarrow> Inl e
      | Inr avg_reading \<Rightarrow>
          (let avg_reading = avg_reading\<lparr>measurementTime := PDatetime now\<rparr>;
               reading_plus_5s_ts =
                 (case measurementTime avg_reading of PDatetime t \<Rightarrow> (t + 5000000) div 1000000
                  | _ \<Rightarrow> 0)
           in
           if arcint_secs self = 0 then Inl ZeroDivisionError
           else
             (let archive_ts =
                    py_int (real_of_int reading_plus_5s_ts / real_of_int (arcint_secs self)) *
                    arcint_secs self
              in Inr (avg_reading\<lparr>measurementTime := PDatetime (archive_ts * 1000000)\<rparr>))))"

text \<open>
  The block \<^verbatim>\<open>if event == event.ARCHIVE: ...\<close> at the end of a cycle, on the pair of the
  table and the long window \<open>archive_readings\<close>. \<open>now\<close> is the clock read by the
  \<open>utc_now()\<close> that stamps the average. An exception of \<open>save_archive_reading\<close> is
  caught and logged, and \<open>archive_readings.clear()\<close> is skipped. Logging is not
  modelled.
\<close>

definition archive_block ::
  "(affinity \<Rightarrow> pyval \<Rightarrow> error + sqlval) \<Rightarrow> Service \<Rightarrow> Event \<Rightarrow> int \<Rightarrow> table \<times> Reading list \<Rightarrow>
   error + table \<times> Reading list" where
  "archive_block other self event now st =
     (case st of
        (tbl, archive_readings) \<Rightarrow>
          if event = ARCHIVE
          then
            (if length archive_readings = 0 then Inr (tbl, archive_readings)
             else
               (case archive_record self now archive_readings of
                  Inl e \<Rightarrow> Inl e
                | Inr avg_reading \<Rightarrow>
                    (case save_archive_reading other avg_reading tbl of
                       Inl e \<Rightarrow> Inr (tbl, archive_readings)
                     | Inr tbl' \<Rightarrow> Inr (tbl', []))))
          else Inr (tbl, archive_readings))"

section \<open>compute_avg on a store of objects\<close>

text \<open>
  Whether \<open>compute_avg\<close> changes its argument depends on which objects it writes to,
  so this second model keeps the objects in a store. A reference is a number;
  \<open>objs\<close> gives the \<open>Reading\<close> object at a reference and \<open>lists\<close> the list object at
  a reference (a list of references); references below \<open>next_obj\<close>, \<open>next_list\<close>
  are allocated, and allocation takes the next one.
\<close>

record store =
  objs :: "nat \<Rightarrow> Reading"
  lists :: "nat \<Rightarrow> nat list"
  next_obj :: nat
  next_list :: nat

text \<open>\<open>copy.copy(x)\<close> of a dataclass instance: a new object with the same field values.\<close>

definition copy_copy :: "store \<Rightarrow> nat \<Rightarrow> nat \<times> store" where
  "copy_copy s a =
     (next_obj s, s\<lparr>objs := (objs s)(next_obj s := objs s a), next_obj := Suc (next_obj s)\<rparr>)"

text \<open>\<open>readings[1:]\<close>: a new list object.\<close>

definition slice_from_1 :: "store \<Rightarrow> nat \<Rightarrow> nat \<times> store" where
  "slice_from_1 s l =
     (next_list s, s\<lparr>lists := (lists s)(next_list s := tl (lists s l)), next_list := Suc (next_list s)\<rparr>)"

text \<open>
  The loop: every assignment of the body writes to the object \<open>summed_reading\<close> and
  reads from it and from the object \<open>reading\<close>.
\<close>

fun sum_loop_store :: "store \<Rightarrow> nat \<Rightarrow> nat list \<Rightarrow> error + store" where
  "sum_loop_store s summed_reading [] = Inr s"
| "sum_loop_store s summed_reading (reading # rest) =
     (case loop_body (objs s summed_reading) (objs s reading) of
        Inl e \<Rightarrow> Inl e
      | Inr v \<Rightarrow> sum_loop_store (s\<lparr>objs := (objs s)(summed_reading := v)\<rparr>) summed_reading rest)"

definition compute_avg_store :: "store \<Rightarrow> nat \<Rightarrow> error + nat \<times> store" where
  "compute_avg_store s readings =
     (case lists s readings of
        [] \<Rightarrow> Inl IndexError
      | first # _ \<Rightarrow>
          (case copy_copy s first of
             (summed_reading, s1) \<Rightarrow>
               (case slice_from_1 s1 readings of
                  (rest, s2) \<Rightarrow>
                    (case sum_loop_store s2 summed_reading (lists s2 rest) of
                       Inl e \<Rightarrow> Inl e
                     | Inr s3 \<Rightarrow>
                         (let count = real (length (lists s3 readings)) in
                          case copy_copy s3 summed_reading of
                            (avg_reading, s4) \<Rightarrow>
                              (case run_lines (map (div_line count) channels) (objs s4 avg_reading) of
                                 Inl e \<Rightarrow> Inl e
                               | Inr v \<Rightarrow>
                                   Inr (avg_reading, s4\<lparr>objs := (objs s4)(avg_reading := v)\<rparr>)))))))"

section \<open>Test data of the source\<close>

text \<open>\<open>create_test_reading\<close>, with the literals as written (integers stay integers).\<close>

definition create_test_reading :: "pyval \<Rightarrow> Reading" where
  "create_test_reading mt =
     \<lparr>measurementTime = mt,
      serialno = PStr ''000000000000'',
      wifi = PInt (- 70),
      pm01 = PFloat 0.67,
      pm02 = PFloat 0.23,
      pm10 = PFloat 0.54,
      pm02Compensated = PInt 0,
      pm01Standard = PInt 0,
      pm02Standard = PInt 0,
      pm10Standard = PInt 10,
      rco2 = PInt 547,
      pm003Count = PFloat 94.33,
      pm005Count = PFloat 75.33,
      pm01Count = PFloat 22.33,
      pm02Count = PFloat 2.33,
      pm50Count = PInt 0,
      pm10Count = PInt 0,
      atmp = PFloat 21.66,
      atmpCompensated = PFloat 21.66,
      rhum = PFloat 60.74,
      rhumCompensated = PFloat 60.74,
      tvocIndex = PInt 98,
      tvocRaw = PFloat 32358.67,
      noxIndex = PInt 1,
      noxRaw = PFloat 18311.08,
      boot = PInt 14,
      bootCount = PInt 14,
      ledMode = PStr ''pm'',
      firmware = PStr ''3.3.7'',
      model = PStr ''I-9PSL''\<rparr>"

text \<open>
  The two readings of \<open>test_compute_avg\<close>, fifteen seconds apart, with the channel
  values the test assigns (the other fields are those of \<open>create_test_reading\<close>).
\<close>

definition avg_test_reading1 :: Reading where
  "avg_test_reading1 =
     (create_test_reading (PDatetime 1576381370000000))
       \<lparr>wifi := PInt (- 71), pm01 := PInt 325, pm02 := PInt 221, pm10 := PInt 410,
        pm02Compensated := PInt 201, pm01Standard := PInt 340, pm02Standard := PInt 246,
        pm10Standard := PInt 612, rco2 := PInt 746, pm003Count := PInt 112,
        pm005Count := PInt 356, pm01Count := PInt 643, pm02Count := PInt 331,
        pm50Count := PInt 123, pm10Count := PInt 432, atmp := PFloat 20.5,
        atmpCompensated := PFloat 19.5, rhum := PFloat 64.2, rhumCompensated := PFloat 60.2,
        tvocIndex := PInt 7, tvocRaw := PInt 4, noxIndex := PInt 12, noxRaw := PInt 10\<rparr>"

definition avg_test_reading2 :: Reading where
  "avg_test_reading2 =
     (create_test_reading (PDatetime 1576381385000000))
       \<lparr>wifi := PInt (- 72), pm01 := PInt 347, pm02 := PInt 230, pm10 := PInt 415,
        pm02Compensated := PInt 212, pm01Standard := PInt 346, pm02Standard := PInt 248,
        pm10Standard := PInt 614, rco2 := PInt 750, pm003Count := PInt 185,
        pm005Count := PInt 385, pm01Count := PInt 647, pm02Count := PInt 338,
        pm50Count := PInt 456, pm10Count := PInt 234, atmp := PFloat 20.9,
        atmpCompensated := PFloat 19.9, rhum := PFloat 64.6, rhumCompensated := PFloat 60.6,
        tvocIndex := PInt 9, tvocRaw := PInt 5, noxIndex := PInt 14, noxRaw := PInt 11\<rparr>"

section \<open>Notions used to state the properties\<close>

text \<open>
  A channel value of the declared kind: absent or a number. (\<open>parse_response\<close> only
  produces floats and \<open>None\<close> there; the source's own test passes integers.)
\<close>

definition chan_ok :: "pyval \<Rightarrow> bool" where
  "chan_ok v = (v = PNone \<or> is_number v)"

definition typed_channels :: "Reading \<Rightarrow> bool" where
  "typed_channels r = list_all (\<lambda>ch. chan_ok (fst ch r)) channels"

text \<open>
  The arithmetic mean of a channel over a list, absent as soon as one element lacks
  the channel: what the specification asks of the result.
\<close>

definition mean_channel :: "(Reading \<Rightarrow> pyval) \<Rightarrow> Reading list \<Rightarrow> pyval" where
  "mean_channel g readings =
     (if list_all (\<lambda>r. g r \<noteq> PNone) readings
      then PFloat (sum_list (map (\<lambda>r. num_val (g r)) readings) / real (length readings))
      else PNone)"

text \<open>Closed forms of one loop iteration and of the averaging block, for typed channels.\<close>

definition add_typed :: "pyval \<Rightarrow> pyval \<Rightarrow> pyval" where
  "add_typed a b =
     (if a = PNone \<or> b = PNone then PNone
      else if is_integral a \<and> is_integral b then PInt (int_val a + int_val b)
      else PFloat (num_val a + num_val b))"

definition div_typed :: "real \<Rightarrow> pyval \<Rightarrow> pyval" where
  "div_typed count a = (if a = PNone then PNone else PFloat (num_val a / count))"

definition accumulate :: "Reading \<Rightarrow> Reading \<Rightarrow> Reading" where
  "accumulate s r =
     s\<lparr>measurementTime := measurementTime r,
        serialno := serialno r,
        ledMode := ledMode r,
        firmware := firmware r,
        model := model r,
        boot := boot r,
        bootCount := bootCount r,
        wifi := add_typed (wifi s) (wifi r),
        pm01 := add_typed (pm01 s) (pm01 r),
        pm02 := add_typed (pm02 s) (pm02 r),
        pm10 := add_typed (pm10 s) (pm10 r),
        pm02Compensated := add_typed (pm02Compensated s) (pm02Compensated r),
        pm01Standard := add_typed (pm01Standard s) (pm01Standard r),
        pm02Standard := add_typed (pm02Standard s) (pm02Standard r),
        pm10Standard := add_typed (pm10Standard s) (pm10Standard r),
        rco2 := add_typed (rco2 s) (rco2 r),
        pm003Count := add_typed (pm003Count s) (pm003Count r),
        pm005Count := add_typed (pm005Count s) (pm005Count r),
        pm01Count := add_typed (pm01Count s) (pm01Count r),
        pm02Count := add_typed (pm02Count s) (pm02Count r),
        pm50Count := add_typed (pm50Count s) (pm50Count r),
        pm10Count := add_typed (pm10Count s) (pm10Count r),
        atmp := add_typed (atmp s) (atmp r),
        atmpCompensated := add_typed (atmpCompensated s) (atmpCompensated r),
        rhum := add_typed (rhum s) (rhum r),
        rhumCompensated := add_typed (rhumCompensated s) (rhumCompensated r),
        tvocIndex := add_typed (tvocIndex s) (tvocIndex r),
        tvocRaw := add_typed (tvocRaw s) (tvocRaw r),
        noxIndex := add_typed (noxIndex s) (noxIndex r),
        noxRaw := add_typed (noxRaw s) (noxRaw r)\<rparr>"

definition divided :: "real \<Rightarrow> Reading \<Rightarrow> Reading" where
  "divided count s =
     s\<lparr>wifi := div_typed count (wifi s),
        pm01 := div_typed count (pm01 s),
        pm02 := div_typed count (pm02 s),
        pm10 := div_typed count (pm10 s),
        pm02Compensated := div_typed count (pm02Compensated s),
        pm01Standard := div_typed count (pm01Standard s),
        pm02Standard := div_typed count (pm02Standard s),
        pm10Standard := div_typed count (pm10Standard s),
        rco2 := div_typed count (rco2 s),
        pm003Count := div_typed count (pm003Count s),
        pm005Count := div_typed count (pm005Count s),
        pm01Count := div_typed count (pm01Count s),
        pm02Count := div_typed count (pm02Count s),
        pm50Count := div_typed count (pm50Count s),
        pm10Count := div_typed count (pm10Count s),
        atmp := div_typed count (atmp s),
        atmpCompensated := div_typed count (atmpCompensated s),
        rhum := div_typed count (rhum s),
        rhumCompensated := div_typed count (rhumCompensated s),
        tvocIndex := div_typed count (tvocIndex s),
        tvocRaw := div_typed count (tvocRaw s),
        noxIndex := div_typed count (noxIndex s),
        noxRaw := div_typed count (noxRaw s)\<rparr>"

text \<open>The timing defaults of \<open>start\<close>: poll every 30 s, no offset, archive every 300 s.\<close>

definition default_service :: Service where
  "default_service = \<lparr>pollfreq_secs = 30, pollfreq_offset = 0, arcint_secs = 300\<rparr>"

text \<open>\<open>floor(t / interval) * interval + interval\<close>, the next boundary of a cadence after \<open>t\<close>.\<close>

definition next_boundary :: "int \<Rightarrow> real \<Rightarrow> int" where
  "next_boundary interval t = \<lfloor>t / real_of_int interval\<rfloor> * interval + interval"

text \<open>
  Examples for the database and the archive step: an \<open>other\<close> that fails wherever
  the model of \<open>stored_value\<close> leaves the outcome open, the two test readings as a
  long window, and a table that already holds an archive row for the boundary
  2019-12-15 03:45:00 UTC (1576381500, a multiple of 300).
\<close>

definition no_other :: "affinity \<Rightarrow> pyval \<Rightarrow> error + sqlval" where
  "no_other aff v = Inl OperationalError"

definition archive_test_window :: "Reading list" where
  "archive_test_window = [avg_test_reading1, avg_test_reading2]"

definition archive_test_table :: table where
  "archive_test_table =
     [\<lparr>record_type = RecordType_ARCHIVE, timestamp = 1576381500,
       columns = replicate 29 (SText ''NULL'')\<rparr>]"

text \<open>
  The two sample payloads quoted in the source's comments, as \<open>response.json()\<close>
  returns them: the indoor monitor (AirGradient One) and the outdoor monitor (Open
  Air), which sends no \<open>pm50Count\<close>, \<open>pm10Count\<close> and \<open>ledMode\<close>.
\<close>

definition sample_one_payload :: pyval where
  "sample_one_payload =
     PDict [(''pm01'', PFloat 0.67), (''pm02'', PFloat 0.67), (''pm10'', PFloat 0.67),
            (''pm01Standard'', PFloat 0.67), (''pm02Standard'', PFloat 0.67),
            (''pm10Standard'', PFloat 0.67), (''pm003Count'', PFloat 568.33),
            (''pm005Count'', PFloat 383.33), (''pm01Count'', PInt 11), (''pm02Count'', PInt 0),
            (''pm50Count'', PInt 0), (''pm10Count'', PInt 0), (''pm02Compensated'', PFloat 1.03),
            (''atmp'', PFloat 21.91), (''atmpCompensated'', PFloat 21.91),
            (''rhum'', PFloat 58.86), (''rhumCompensated'', PFloat 58.86), (''rco2'', PInt 514),
            (''tvocIndex'', PInt 75), (''tvocRaw'', PFloat 32100.5), (''noxIndex'', PInt 1),
            (''noxRaw'', PFloat 18138.67), (''boot'', PInt 0), (''bootCount'', PInt 0),
            (''wifi'', PInt (- 72)), (''ledMode'', PStr ''pm''),
            (''serialno'', PStr ''000000000000''), (''firmware'', PStr ''3.3.7''),
            (''model'', PStr ''I-9PSL'')]"

definition sample_open_air_payload :: pyval where
  "sample_open_air_payload =
     PDict [(''pm01'', PInt 0), (''pm02'', PInt 0), (''pm10'', PInt 0),
            (''pm01Standard'', PInt 0), (''pm02Standard'', PInt 0), (''pm10Standard'', PInt 0),
            (''pm003Count'', PFloat 57.17), (''pm005Count'', PFloat 48.17),
            (''pm01Count'', PFloat 7.83), (''pm02Count'', PFloat 0.67), (''atmp'', PFloat 23.2),
            (''atmpCompensated'', PFloat 22.29), (''rhum'', PFloat 46.05),
            (''rhumCompensated'', PFloat 65.32), (''pm02Compensated'', PInt 0),
            (''rco2'', PFloat 599.33), (''tvocIndex'', PInt 101), (''tvocRaw'', PFloat 32378.83),
            (''noxIndex'', PInt 1), (''noxRaw'', PFloat 17800.5), (''boot'', PInt 3),
            (''bootCount'', PInt 3), (''wifi'', PInt (- 73)),
            (''serialno'', PStr ''000000000000''), (''firmware'', PStr ''3.3.9''),
            (''model'', PStr ''O-1PST'')]"

text \<open>The reading that \<open>parse_response\<close> builds from the indoor sample at time \<open>now\<close>.\<close>

definition sample_one_reading :: "int \<Rightarrow> Reading" where
  "sample_one_reading now =
     \<lparr>measurementTime = PDatetime now,
      serialno = PStr ''000000000000'',
      wifi = PFloat (- 72),
      pm01 = PFloat 0.67,
      pm02 = PFloat 0.67,
      pm10 = PFloat 0.67,
      pm02Compensated = PFloat 1.03,
      pm01Standard = PFloat 0.67,
      pm02Standard = PFloat 0.67,
      pm10Standard = PFloat 0.67,
      rco2 = PFloat 514,
      pm003Count = PFloat 568.33,
      pm005Count = PFloat 383.33,
      pm01Count = PFloat 11,
      pm02Count = PFloat 0,
      pm50Count = PFloat 0,
      pm10Count = PFloat 0,
      atmp = PFloat 21.91,
      atmpCompensated = PFloat 21.91,
      rhum = PFloat 58.86,
      rhumCompensated = PFloat 58.86,
      tvocIndex = PFloat 75,
      tvocRaw = PFloat 32100.5,
      noxIndex = PFloat 1,
      noxRaw = PFloat 18138.67,
      boot = PInt 0,
      bootCount = PInt 0,
      ledMode = PStr ''pm'',
      firmware = PStr ''3.3.7'',
      model = PStr ''I-9PSL''\<rparr>"

text \<open>The 29 keys that \<open>parse_response\<close> subscripts.\<close>

definition reading_keys :: "string list" where
  "reading_keys =
     [''serialno'', ''wifi'', ''pm01'', ''pm02'', ''pm10'', ''pm02Compensated'', ''pm01Standard'',
      ''pm02Standard'', ''pm10Standard'', ''rco2'', ''pm003Count'', ''pm005Count'', ''pm01Count'',
      ''pm02Count'', ''pm50Count'', ''pm10Count'', ''atmp'', ''atmpCompensated'', ''rhum'',
      ''rhumCompensated'', ''tvocIndex'', ''tvocRaw'', ''noxIndex'', ''noxRaw'', ''boot'',
      ''bootCount'', ''ledMode'', ''firmware'', ''model'']"

text \<open>
  A field has its declared type when it is absent or an instance of the type; a
  reading has its declared types when the serial number and the three metadata fields
  are strings, the 23 channels floats and the two boot counters integers, each if
  present.
\<close>

definition type_ok :: "(pyval \<Rightarrow> bool) \<Rightarrow> pyval \<Rightarrow> bool" where
  "type_ok isinstance_of v = (v = PNone \<or> isinstance_of v)"

definition declared_types :: "Reading \<Rightarrow> bool" where
  "declared_types r =
     (type_ok isinstance_str (serialno r) \<and>
      list_all (\<lambda>ch. type_ok isinstance_float (fst ch r)) channels \<and>
      type_ok isinstance_int (boot r) \<and> type_ok isinstance_int (bootCount r) \<and>
      type_ok isinstance_str (ledMode r) \<and> type_ok isinstance_str (firmware r) \<and>
      type_ok isinstance_str (model r))"

text \<open>
  For the database: the rows that the \<open>SELECT\<close> of \<open>fetch_readings\<close> returns, the
  reading that \<open>create_reading_from_row\<close> builds from a table row, the time of a
  reading in microseconds, the row that \<open>save_archive_reading\<close> inserts, and the
  indoor sample with the \<open>wifi\<close> channel absent (the sensor sent \<open>null\<close>).
\<close>

definition selected_rows :: "int \<Rightarrow> int \<Rightarrow> int option \<Rightarrow> int option \<Rightarrow> table \<Rightarrow> db_row list" where
  "selected_rows rtype since_ts max_ts limit tbl =
     (let ordered = sort_key timestamp
            (filter (\<lambda>row. record_type row = rtype \<and> timestamp row > real_of_int since_ts \<and>
                          (case max_ts of None \<Rightarrow> True | Some m \<Rightarrow> timestamp row \<le> real_of_int m))
              tbl)
      in case limit of
           None \<Rightarrow> ordered
         | Some n \<Rightarrow> if n < 0 then ordered else take (nat n) ordered)"

definition row_reading :: "db_row \<Rightarrow> Reading" where
  "row_reading row =
     (case create_reading_from_row (PFloat (timestamp row) # map py_of_sql (columns row)) of
        Inr r \<Rightarrow> r
      | Inl e \<Rightarrow> blank_reading)"

definition reading_time :: "Reading \<Rightarrow> int" where
  "reading_time r = (case measurementTime r of PDatetime t \<Rightarrow> t | _ \<Rightarrow> 0)"

definition archive_row :: "int \<Rightarrow> sqlval list \<Rightarrow> db_row" where
  "archive_row t vals =
     \<lparr>record_type = RecordType_ARCHIVE, timestamp = timestamp_of t, columns = vals\<rparr>"

definition absent_wifi_reading :: Reading where
  "absent_wifi_reading = (sample_one_reading 1576381385000000)\<lparr>wifi := PNone\<rparr>"

text \<open>
  A store with the two test readings as objects 0 and 1 and the list \<open>[0, 1]\<close> as
  list object 0.
\<close>

definition test_store :: store where
  "test_store =
     \<lparr>objs = (\<lambda>a. blank_reading)(0 := avg_test_reading1, 1 := avg_test_reading2),
      lists = (\<lambda>l. [])(0 := [0, 1]),
      next_obj = 2,
      next_list = 1\<rparr>"

section \<open>Averaging\<close>

lemma add_channel_typed:
  "chan_ok a \<Longrightarrow> chan_ok b \<Longrightarrow> add_channel a b = Inr (add_typed a b)"
  by (cases a; cases b) (simp_all add: chan_ok_def add_channel_def add_typed_def)

lemma chan_ok_add_typed: "chan_ok (add_typed a b)"
  by (simp add: chan_ok_def add_typed_def)

lemma py_truediv_typed:
  "chan_ok a \<Longrightarrow> a \<noteq> PNone \<Longrightarrow> count \<noteq> 0 \<Longrightarrow> py_truediv a count = Inr (div_typed count a)"
  by (simp add: chan_ok_def py_truediv_def div_typed_def)

lemma loop_body_typed:
  "typed_channels s \<Longrightarrow> typed_channels r \<Longrightarrow> loop_body s r = Inr (accumulate s r)"
  by (simp add: loop_body_def channels_def sum_line_def typed_channels_def add_channel_typed
      accumulate_def)

lemma typed_channels_accumulate: "typed_channels (accumulate s r)"
  by (simp add: typed_channels_def channels_def accumulate_def chan_ok_add_typed)

lemma sum_loop_typed:
  "typed_channels s \<Longrightarrow> list_all typed_channels rs \<Longrightarrow> sum_loop s rs = Inr (foldl accumulate s rs)"
proof (induction rs arbitrary: s)
  case Nil
  show ?case by simp
next
  case (Cons r rs)
  from Cons.prems have "loop_body s r = Inr (accumulate s r)"
    by (simp add: loop_body_typed)
  moreover from Cons.prems have "sum_loop (accumulate s r) rs = Inr (foldl accumulate (accumulate s r) rs)"
    by (intro Cons.IH) (simp_all add: typed_channels_accumulate)
  ultimately show ?case by simp
qed

lemma typed_channels_foldl:
  "typed_channels s \<Longrightarrow> typed_channels (foldl accumulate s rs)"
  by (induction rs arbitrary: s) (simp_all add: typed_channels_accumulate)

lemma div_line_typed:
  "chan_ok (fst ch s) \<Longrightarrow> count \<noteq> 0 \<Longrightarrow>
   div_line count ch s = Inr (snd ch (\<lambda>_. div_typed count (fst ch s)) s)"
  by (simp add: div_line_def py_truediv_typed) (simp add: div_typed_def)

lemma div_lines_typed:
  "typed_channels s \<Longrightarrow> count \<noteq> 0 \<Longrightarrow>
   run_lines (map (div_line count) channels) s = Inr (divided count s)"
  by (simp add: channels_def typed_channels_def div_line_typed divided_def)

lemma compute_avg_typed:
  assumes "typed_channels first" and "list_all typed_channels rest"
  shows "compute_avg (first # rest) =
           Inr (divided (real (Suc (length rest))) (foldl accumulate first rest))"
  using assms
  by (simp add: compute_avg_def sum_loop_typed typed_channels_foldl div_lines_typed
      del: of_nat_Suc)

lemma foldl_channel:
  "list_all (\<lambda>ch. fst ch (foldl accumulate s rs) = foldl add_typed (fst ch s) (map (fst ch) rs))
     channels"
proof (induction rs arbitrary: s)
  case Nil
  show ?case by (simp add: channels_def)
next
  case (Cons r rs)
  from Cons.IH [of "accumulate s r"] show ?case
    by (simp add: channels_def accumulate_def)
qed

lemma foldl_identity:
  "serialno (foldl accumulate s rs) = serialno (last (s # rs)) \<and>
   ledMode (foldl accumulate s rs) = ledMode (last (s # rs)) \<and>
   firmware (foldl accumulate s rs) = firmware (last (s # rs)) \<and>
   model (foldl accumulate s rs) = model (last (s # rs)) \<and>
   boot (foldl accumulate s rs) = boot (last (s # rs)) \<and>
   bootCount (foldl accumulate s rs) = bootCount (last (s # rs)) \<and>
   measurementTime (foldl accumulate s rs) = measurementTime (last (s # rs))"
proof (induction rs arbitrary: s)
  case Nil
  show ?case by simp
next
  case (Cons r rs)
  from Cons.IH [of "accumulate s r"] show ?case
    by (simp add: accumulate_def)
qed

lemma foldl_add_typed_none:
  "(foldl add_typed a xs = PNone) = (\<not> list_all (\<lambda>v. v \<noteq> PNone) (a # xs))"
  by (induction xs arbitrary: a) (auto simp: add_typed_def)

lemma num_val_add_typed:
  "a \<noteq> PNone \<Longrightarrow> b \<noteq> PNone \<Longrightarrow> num_val (add_typed a b) = num_val a + num_val b"
  by (cases a; cases b) (simp_all add: add_typed_def)

lemma foldl_add_typed_sum:
  "list_all (\<lambda>v. v \<noteq> PNone) (a # xs) \<Longrightarrow>
   num_val (foldl add_typed a xs) = num_val a + sum_list (map num_val xs)"
proof (induction xs arbitrary: a)
  case Nil
  show ?case by simp
next
  case (Cons x xs)
  from Cons.prems have ne: "a \<noteq> PNone" "x \<noteq> PNone" by simp_all
  then have "add_typed a x \<noteq> PNone" by (simp add: add_typed_def)
  with Cons.prems have "list_all (\<lambda>v. v \<noteq> PNone) (add_typed a x # xs)" by simp
  from Cons.IH [OF this] ne show ?case by (simp add: num_val_add_typed)
qed

lemma div_typed_foldl:
  "div_typed (real (Suc (length rest))) (foldl add_typed (g first) (map g rest)) =
   mean_channel g (first # rest)"
proof (cases "list_all (\<lambda>v. v \<noteq> PNone) (g first # map g rest)")
  case True
  then have "foldl add_typed (g first) (map g rest) \<noteq> PNone"
    by (simp add: foldl_add_typed_none)
  moreover from True have "list_all (\<lambda>r. g r \<noteq> PNone) (first # rest)"
    by (simp add: list_all_iff)
  moreover note foldl_add_typed_sum [OF True]
  ultimately show ?thesis
    by (simp add: div_typed_def mean_channel_def comp_def del: of_nat_Suc)
next
  case False
  then have "foldl add_typed (g first) (map g rest) = PNone"
    by (simp add: foldl_add_typed_none)
  moreover from False have "\<not> list_all (\<lambda>r. g r \<noteq> PNone) (first # rest)"
    by (simp add: list_all_iff)
  ultimately show ?thesis
    by (simp add: div_typed_def mean_channel_def)
qed


lemma divided_channel:
  "list_all (\<lambda>ch. fst ch (divided count s) = div_typed count (fst ch s)) channels"
  by (simp add: channels_def divided_def)

lemma divided_identity:
  "serialno (divided count s) = serialno s \<and> ledMode (divided count s) = ledMode s \<and>
   firmware (divided count s) = firmware s \<and> model (divided count s) = model s \<and>
   boot (divided count s) = boot s \<and> bootCount (divided count s) = bootCount s \<and>
   measurementTime (divided count s) = measurementTime s"
  by (simp add: divided_def)

lemma compute_avg_channels:
  "list_all (\<lambda>ch.
      fst ch (divided (real (Suc (length rest))) (foldl accumulate first rest)) =
      mean_channel (fst ch) (first # rest)) channels"
proof -
  have "fst ch (divided (real (Suc (length rest))) (foldl accumulate first rest)) =
      mean_channel (fst ch) (first # rest)" if "ch \<in> set channels" for ch
  proof -
    from that divided_channel
    have "fst ch (divided (real (Suc (length rest))) (foldl accumulate first rest)) =
          div_typed (real (Suc (length rest))) (fst ch (foldl accumulate first rest))"
      unfolding list_all_iff by blast
    also from that foldl_channel
    have "fst ch (foldl accumulate first rest) = foldl add_typed (fst ch first) (map (fst ch) rest)"
      unfolding list_all_iff by blast
    finally show ?thesis by (simp only: div_typed_foldl)
  qed
  then show ?thesis unfolding list_all_iff by blast
qed

text \<open>
  C1. For a non-empty list of readings whose channels are numbers or absent,
  \<open>compute_avg\<close> returns a reading in which every one of the 23 channels is the
  arithmetic mean of that channel over the list when all elements have it, and is
  absent as soon as one element lacks it; \<open>serialno\<close>, \<open>ledMode\<close>, \<open>firmware\<close>,
  \<open>model\<close>, \<open>boot\<close> and \<open>bootCount\<close> are those of the last element.
\<close>

theorem compute_avg_mean:
  assumes "readings \<noteq> []" and "list_all typed_channels readings"
  shows "\<exists>avg. compute_avg readings = Inr avg \<and>
       wifi avg = mean_channel wifi readings \<and>
       pm01 avg = mean_channel pm01 readings \<and>
       pm02 avg = mean_channel pm02 readings \<and>
       pm10 avg = mean_channel pm10 readings \<and>
       pm02Compensated avg = mean_channel pm02Compensated readings \<and>
       pm01Standard avg = mean_channel pm01Standard readings \<and>
       pm02Standard avg = mean_channel pm02Standard readings \<and>
       pm10Standard avg = mean_channel pm10Standard readings \<and>
       rco2 avg = mean_channel rco2 readings \<and>
       pm003Count avg = mean_channel pm003Count readings \<and>
       pm005Count avg = mean_channel pm005Count readings \<and>
       pm01Count avg = mean_channel pm01Count readings \<and>
       pm02Count avg = mean_channel pm02Count readings \<and>
       pm50Count avg = mean_channel pm50Count readings \<and>
       pm10Count avg = mean_channel pm10Count readings \<and>
       atmp avg = mean_channel atmp readings \<and>
       atmpCompensated avg = mean_channel atmpCompensated readings \<and>
       rhum avg = mean_channel rhum readings \<and>
       rhumCompensated avg = mean_channel rhumCompensated readings \<and>
       tvocIndex avg = mean_channel tvocIndex readings \<and>
       tvocRaw avg = mean_channel tvocRaw readings \<and>
       noxIndex avg = mean_channel noxIndex readings \<and>
       noxRaw avg = mean_channel noxRaw readings \<and>
       serialno avg = serialno (last readings) \<and>
       ledMode avg = ledMode (last readings) \<and>
       firmware avg = firmware (last readings) \<and>
       model avg = model (last readings) \<and>
       boot avg = boot (last readings) \<and>
       bootCount avg = bootCount (last readings)"
proof -
  from assms(1) obtain first rest where rs: "readings = first # rest"
    by (cases readings) simp_all
  define avg where "avg = divided (real (Suc (length rest))) (foldl accumulate first rest)"
  from assms(2) rs have "compute_avg readings = Inr avg"
    by (simp add: compute_avg_typed avg_def del: of_nat_Suc)
  moreover from compute_avg_channels [of rest first]
  have "list_all (\<lambda>ch. fst ch avg = mean_channel (fst ch) readings) channels"
    by (simp only: avg_def rs)
  moreover from divided_identity [of "real (Suc (length rest))" "foldl accumulate first rest"]
    foldl_identity [of first rest]
  have "serialno avg = serialno (last readings) \<and> ledMode avg = ledMode (last readings) \<and>
    firmware avg = firmware (last readings) \<and> model avg = model (last readings) \<and>
    boot avg = boot (last readings) \<and> bootCount avg = bootCount (last readings)"
    by (simp only: avg_def rs)
  ultimately show ?thesis
    by (intro exI [of _ avg]) (simp add: channels_def)
qed

theorem compute_avg_mean_witness:
  "[avg_test_reading1, avg_test_reading2] \<noteq> [] \<and>
   list_all typed_channels [avg_test_reading1, avg_test_reading2] \<and>
   (\<exists>avg. compute_avg [avg_test_reading1, avg_test_reading2] = Inr avg \<and>
      wifi avg = PFloat (- 71.5) \<and> pm01 avg = PFloat 336 \<and> pm01Standard avg = PFloat 343 \<and>
      atmp avg = PFloat 20.7 \<and> noxRaw avg = PFloat 10.5 \<and>
      serialno avg = PStr ''000000000000'' \<and> boot avg = PInt 14 \<and> model avg = PStr ''I-9PSL'')"
proof -
  have ne: "[avg_test_reading1, avg_test_reading2] \<noteq> []" by simp
  have ty: "list_all typed_channels [avg_test_reading1, avg_test_reading2]"
    by (simp add: typed_channels_def channels_def chan_ok_def avg_test_reading1_def
        avg_test_reading2_def create_test_reading_def)
  from compute_avg_mean [OF ne ty] obtain avg where
    avg: "compute_avg [avg_test_reading1, avg_test_reading2] = Inr avg"
      "wifi avg = mean_channel wifi [avg_test_reading1, avg_test_reading2]"
      "pm01 avg = mean_channel pm01 [avg_test_reading1, avg_test_reading2]"
      "pm01Standard avg = mean_channel pm01Standard [avg_test_reading1, avg_test_reading2]"
      "atmp avg = mean_channel atmp [avg_test_reading1, avg_test_reading2]"
      "noxRaw avg = mean_channel noxRaw [avg_test_reading1, avg_test_reading2]"
      "serialno avg = serialno (last [avg_test_reading1, avg_test_reading2])"
      "boot avg = boot (last [avg_test_reading1, avg_test_reading2])"
      "model avg = model (last [avg_test_reading1, avg_test_reading2])"
    by blast
  have "wifi avg = PFloat (- 71.5)" "pm01 avg = PFloat 336" "pm01Standard avg = PFloat 343"
    "atmp avg = PFloat 20.7" "noxRaw avg = PFloat 10.5"
    "serialno avg = PStr ''000000000000''" "boot avg = PInt 14" "model avg = PStr ''I-9PSL''"
    unfolding avg
    by (simp_all add: mean_channel_def avg_test_reading1_def avg_test_reading2_def
        create_test_reading_def)
  with ne ty avg(1) show ?thesis by blast
qed

text \<open>
  C6, as amended. \<open>compute_avg\<close> applied to the empty list fails with Python's
  \<open>IndexError\<close>: its first statement reads \<open>readings[0]\<close>. There is no check of
  its own and no dedicated error; the non-empty list is a precondition that the loop
  keeps: both of its averaging steps skip an empty window.
\<close>

theorem compute_avg_empty_fails:
  "compute_avg [] = Inl IndexError \<and>
   two_minute_block other tbl [] = Inr tbl \<and>
   archive_block other self event now (tbl, []) = Inr (tbl, [])"
  by (simp add: compute_avg_def two_minute_block_def archive_block_def)

theorem compute_avg_empty_counterexample:
  "compute_avg [] = Inl IndexError \<and> class_name IndexError \<noteq> ''EmptyAggregationError''"
  by (simp add: compute_avg_def class_name_def)

section \<open>Scheduling\<close>

lemma py_int_nonneg: "0 \<le> x \<Longrightarrow> py_int x = \<lfloor>x\<rfloor>"
  by (simp add: py_int_def)

lemma next_boundary_gt:
  assumes "0 < P"
  shows "t < real_of_int (next_boundary P t)"
proof -
  from assms have P: "0 < real_of_int P" by simp
  have "t / real_of_int P < real_of_int \<lfloor>t / real_of_int P\<rfloor> + 1"
    by linarith
  with P have "t < (real_of_int \<lfloor>t / real_of_int P\<rfloor> + 1) * real_of_int P"
    by (simp only: pos_divide_less_eq)
  then show ?thesis
    by (simp add: next_boundary_def algebra_simps)
qed

lemma next_boundary_least:
  assumes "0 < P" and "t < real_of_int (k * P)"
  shows "next_boundary P t \<le> k * P"
proof -
  from assms(1) have P: "0 < real_of_int P" by simp
  from assms(2) have "t < real_of_int k * real_of_int P" by simp
  with P have "t / real_of_int P < real_of_int k"
    by (simp only: pos_divide_less_eq)
  then have "\<lfloor>t / real_of_int P\<rfloor> < k"
    by (simp add: floor_less_iff)
  then have "\<lfloor>t / real_of_int P\<rfloor> + 1 \<le> k" by simp
  with assms(1) have "(\<lfloor>t / real_of_int P\<rfloor> + 1) * P \<le> k * P"
    by (intro mult_right_mono) simp_all
  then show ?thesis
    by (simp add: next_boundary_def algebra_simps)
qed

lemma next_boundary_multiple: "next_boundary P t = (\<lfloor>t / real_of_int P\<rfloor> + 1) * P"
  by (simp add: next_boundary_def algebra_simps)

lemma boundaries_coincide:
  assumes "0 < P" and "0 < A" and "P dvd A"
  shows "(next_boundary P t = next_boundary A t) = (A dvd next_boundary P t)"
proof
  assume "next_boundary P t = next_boundary A t"
  then show "A dvd next_boundary P t"
    by (simp add: next_boundary_multiple)
next
  assume "A dvd next_boundary P t"
  then obtain k where k: "next_boundary P t = k * A"
    by (auto simp: dvd_def mult.commute)
  from next_boundary_gt [OF assms(1), of t] k have "t < real_of_int (k * A)" by simp
  from next_boundary_least [OF assms(2) this] k have le1: "next_boundary A t \<le> next_boundary P t"
    by simp
  from assms(3) obtain m where m: "A = m * P"
    by (auto simp: dvd_def mult.commute)
  have "next_boundary A t = ((\<lfloor>t / real_of_int A\<rfloor> + 1) * m) * P"
    by (simp add: next_boundary_multiple m mult.assoc)
  moreover from next_boundary_gt [OF assms(2), of t]
  have "t < real_of_int (next_boundary A t)" .
  ultimately have "t < real_of_int (((\<lfloor>t / real_of_int A\<rfloor> + 1) * m) * P)" by simp
  from next_boundary_least [OF assms(1) this]
  have "next_boundary P t \<le> next_boundary A t"
    by (simp add: next_boundary_multiple m mult.assoc)
  with le1 show "next_boundary P t = next_boundary A t" by simp
qed

text \<open>
  C3, as amended. For a time \<open>now >= 0\<close> and positive intervals with the poll interval
  dividing the archive interval (30 and 300 in particular), \<open>compute_next_event\<close>
  computes \<open>nextPoll = floor(now/P)*P + P\<close> and \<open>nextArchive = floor(now/A)*A + A\<close> and
  returns \<open>ARCHIVE\<close> exactly when they coincide, which is exactly when the coming poll
  time \<open>nextPoll\<close> is a multiple of the archive interval. The event classified is the
  one the loop is about to sleep for, not the moment of the call: a call at a time
  divisible by 300 gives \<open>POLL\<close>, a call at 270 gives \<open>ARCHIVE\<close>.
\<close>

theorem compute_next_event_classifies_next_boundary:
  assumes "0 \<le> now" and "0 < pollfreq_secs self" and "0 < arcint_secs self"
    and "pollfreq_secs self dvd arcint_secs self"
  shows "compute_next_event self first_time now =
           Inr (if next_boundary (pollfreq_secs self) now = next_boundary (arcint_secs self) now
                then ARCHIVE else POLL,
                real_of_int (next_boundary (pollfreq_secs self) now) - now +
                real_of_int (pollfreq_offset self)) \<and>
         (next_boundary (pollfreq_secs self) now = next_boundary (arcint_secs self) now) =
         (arcint_secs self dvd next_boundary (pollfreq_secs self) now)"
proof -
  from assms have "py_int (now / real_of_int (pollfreq_secs self)) = \<lfloor>now / real_of_int (pollfreq_secs self)\<rfloor>"
    by (intro py_int_nonneg) simp
  moreover from assms have "py_int (now / real_of_int (arcint_secs self)) = \<lfloor>now / real_of_int (arcint_secs self)\<rfloor>"
    by (intro py_int_nonneg) simp
  ultimately have "compute_next_event self first_time now =
           Inr (if next_boundary (pollfreq_secs self) now = next_boundary (arcint_secs self) now
                then ARCHIVE else POLL,
                real_of_int (next_boundary (pollfreq_secs self) now) - now +
                real_of_int (pollfreq_offset self))"
    using assms(2,3) by (simp add: compute_next_event_def next_boundary_def Let_def)
  with boundaries_coincide [OF assms(2,3,4)] show ?thesis by simp
qed

theorem compute_next_event_at_300_counterexample:
  "(300::int) mod 300 = 0 \<and>
   compute_next_event default_service False 300 = Inr (POLL, 30) \<and>
   (270::int) mod 30 = 0 \<and> (270::int) mod 300 \<noteq> 0 \<and>
   compute_next_event default_service False 270 = Inr (ARCHIVE, 30)"
  by (simp add: compute_next_event_def default_service_def py_int_def Let_def)

theorem compute_next_event_classifies_next_boundary_witness:
  "compute_next_event default_service False 285.5 = Inr (ARCHIVE, 14.5) \<and>
   compute_next_event default_service False 300 = Inr (POLL, 30) \<and>
   compute_next_event default_service False 45 = Inr (POLL, 15)"
  using compute_next_event_classifies_next_boundary [of "285.5" default_service False]
    compute_next_event_classifies_next_boundary [of 300 default_service False]
    compute_next_event_classifies_next_boundary [of 45 default_service False]
  by (simp add: default_service_def next_boundary_def)

section \<open>The archive step\<close>

lemma archive_record_value:
  assumes "compute_avg rs = Inr avg" and "arcint_secs self \<noteq> 0"
  shows "archive_record self now rs =
           Inr (avg\<lparr>measurementTime :=
                  PDatetime (py_int (real_of_int ((now + 5000000) div 1000000) /
                                     real_of_int (arcint_secs self)) * arcint_secs self * 1000000)\<rparr>)"
  using assms by (simp add: archive_record_def Let_def)

lemma snap_floor:
  assumes "0 < A" and "0 \<le> now + 5000000"
  shows "py_int (real_of_int ((now + 5000000) div 1000000) / real_of_int A) =
         \<lfloor>(timestamp_of now + 5) / real_of_int A\<rfloor>"
proof -
  have "timestamp_of now + 5 = real_of_int (now + 5000000) / real_of_int 1000000"
    by (simp add: timestamp_of_def field_simps)
  then have secs: "\<lfloor>timestamp_of now + 5\<rfloor> = (now + 5000000) div 1000000"
    by (simp only: floor_divide_of_int_eq)
  from assms have "0 \<le> (now + 5000000) div 1000000"
    by (simp add: pos_imp_zdiv_nonneg_iff)
  with assms(1) have "0 \<le> real_of_int ((now + 5000000) div 1000000) / real_of_int A"
    by simp
  then have "py_int (real_of_int ((now + 5000000) div 1000000) / real_of_int A) =
        \<lfloor>real_of_int ((now + 5000000) div 1000000) / real_of_int A\<rfloor>"
    by (simp add: py_int_def)
  also have "\<dots> = ((now + 5000000) div 1000000) div A"
    by (simp only: floor_divide_of_int_eq)
  also from assms(1) have "\<dots> = \<lfloor>(timestamp_of now + 5) / real_of_int A\<rfloor>"
    by (simp add: floor_divide_real_eq_div secs)
  finally show ?thesis .
qed

lemma save_archive_appends:
  assumes "save_archive_reading other r tbl = Inr tbl'"
  shows "\<exists>t vals. measurementTime r = PDatetime t \<and>
           tbl' = tbl @ [\<lparr>record_type = RecordType_ARCHIVE, timestamp = timestamp_of t, columns = vals\<rparr>]"
  using assms
  by (auto simp: save_archive_reading_def save_reading_def Let_def RecordType_ARCHIVE_def
      RecordType_CURRENT_def RecordType_TWO_MINUTE_def
      split: pyval.splits sum.splits if_splits)

text \<open>
  C4. On an archive cycle with a non-empty long window, a positive archive interval
  and a clock at or after the epoch, the row that the cycle adds to the table has
  record type \<open>ARCHIVE\<close> and the timestamp
  \<open>floor((now + 5 s) / arcint_secs) * arcint_secs\<close>, a multiple of the archive
  interval, whatever the times of the averaged readings are.
\<close>

theorem archive_timestamp_on_grid:
  assumes "0 < arcint_secs self" and "0 \<le> now + 5000000" and "archive_readings \<noteq> []"
    and "archive_block other self ARCHIVE now (tbl, archive_readings) = Inr (tbl', [])"
  shows "\<exists>vals. tbl' = tbl @
           [\<lparr>record_type = RecordType_ARCHIVE,
             timestamp = real_of_int
               (\<lfloor>(timestamp_of now + 5) / real_of_int (arcint_secs self)\<rfloor> * arcint_secs self),
             columns = vals\<rparr>]"
proof -
  from assms(3,4) obtain rec where rec: "archive_record self now archive_readings = Inr rec"
    and sv: "save_archive_reading other rec tbl = Inr tbl'"
    by (auto simp: archive_block_def split: sum.splits)
  from rec obtain avg where avg: "compute_avg archive_readings = Inr avg"
    by (auto simp: archive_record_def split: sum.splits)
  from assms(1) have "arcint_secs self \<noteq> 0" by simp
  from archive_record_value [OF avg this, of now] rec snap_floor [OF assms(1,2)]
  have "measurementTime rec =
      PDatetime (\<lfloor>(timestamp_of now + 5) / real_of_int (arcint_secs self)\<rfloor> * arcint_secs self * 1000000)"
    by auto
  with save_archive_appends [OF sv] show ?thesis
    by (auto simp: timestamp_of_def)
qed

text \<open>
  C9. When \<open>save_archive_reading\<close> raises for the archive record, the cycle leaves
  the long window (and the table) as they were; and whenever a cycle changes the long
  window, it has emptied it on an archive event after \<open>save_archive_reading\<close>
  succeeded.
\<close>

theorem archive_window_kept_on_failure:
  "(\<forall>rec e. archive_readings \<noteq> [] \<and> archive_record self now archive_readings = Inr rec \<and>
       save_archive_reading other rec tbl = Inl e \<longrightarrow>
       archive_block other self ARCHIVE now (tbl, archive_readings) = Inr (tbl, archive_readings)) \<and>
   (\<forall>tbl' window'. archive_block other self event now (tbl, archive_readings) = Inr (tbl', window') \<and>
       window' \<noteq> archive_readings \<longrightarrow>
       window' = [] \<and> event = ARCHIVE \<and>
       (\<exists>rec. archive_record self now archive_readings = Inr rec \<and>
              save_archive_reading other rec tbl = Inr tbl'))"
  by (auto simp: archive_block_def split: sum.splits if_splits)


lemma typed_test_readings:
  "typed_channels avg_test_reading1" "typed_channels avg_test_reading2"
  by (simp_all add: typed_channels_def channels_def chan_ok_def avg_test_reading1_def
      avg_test_reading2_def create_test_reading_def)

lemma compute_avg_test_window:
  "compute_avg archive_test_window =
     Inr (divided 2 (accumulate avg_test_reading1 avg_test_reading2))"
  using compute_avg_typed [of avg_test_reading1 "[avg_test_reading2]"]
  by (simp add: archive_test_window_def typed_test_readings)

lemma archive_record_test_window:
  "archive_record default_service 1576381498000000 archive_test_window =
     Inr ((divided 2 (accumulate avg_test_reading1 avg_test_reading2))
            \<lparr>measurementTime := PDatetime 1576381500000000\<rparr>)"
  using archive_record_value [OF compute_avg_test_window, of default_service 1576381498000000]
  by (simp add: default_service_def py_int_def)

lemma insert_values_test_window:
  "\<exists>vals. insert_values other
      ((divided 2 (accumulate avg_test_reading1 avg_test_reading2))
            \<lparr>measurementTime := PDatetime 1576381500000000\<rparr>) = Inr vals"
  by (simp add: insert_values_def insert_params_def divided_def accumulate_def avg_test_reading1_def
      avg_test_reading2_def create_test_reading_def sql_param_def stored_value_def
      div_typed_def add_typed_def plain_char_def)


lemma save_archive_test_window:
  "\<exists>vals. save_archive_reading other
      ((divided 2 (accumulate avg_test_reading1 avg_test_reading2))
            \<lparr>measurementTime := PDatetime 1576381500000000\<rparr>) [] =
     Inr [\<lparr>record_type = RecordType_ARCHIVE, timestamp = 1576381500, columns = vals\<rparr>]"
proof -
  from insert_values_test_window [of other] obtain vals where
    "insert_values other
      ((divided 2 (accumulate avg_test_reading1 avg_test_reading2))
            \<lparr>measurementTime := PDatetime 1576381500000000\<rparr>) = Inr vals" ..
  then show ?thesis
    by (simp add: save_archive_reading_def save_reading_def RecordType_ARCHIVE_def
        RecordType_CURRENT_def RecordType_TWO_MINUTE_def timestamp_of_def)
qed

lemma save_archive_test_duplicate:
  "save_archive_reading other
      ((divided 2 (accumulate avg_test_reading1 avg_test_reading2))
            \<lparr>measurementTime := PDatetime 1576381500000000\<rparr>) archive_test_table =
     Inl IntegrityError"
proof -
  from insert_values_test_window [of other] obtain vals where
    "insert_values other
      ((divided 2 (accumulate avg_test_reading1 avg_test_reading2))
            \<lparr>measurementTime := PDatetime 1576381500000000\<rparr>) = Inr vals" ..
  then show ?thesis
    by (simp add: save_archive_reading_def save_reading_def RecordType_ARCHIVE_def
        RecordType_CURRENT_def RecordType_TWO_MINUTE_def timestamp_of_def archive_test_table_def)
qed

lemma archive_test_window_nonempty: "archive_test_window \<noteq> []"
  by (simp add: archive_test_window_def)

lemma archive_block_test_success:
  "\<exists>tbl'. archive_block other default_service ARCHIVE 1576381498000000 ([], archive_test_window) =
     Inr (tbl', [])"
  using save_archive_test_window [of other]
  by (auto simp: archive_block_def archive_record_test_window archive_test_window_nonempty)

theorem archive_timestamp_on_grid_witness:
  "\<exists>vals. archive_block no_other default_service ARCHIVE 1576381498000000 ([], archive_test_window) =
     Inr ([\<lparr>record_type = RecordType_ARCHIVE, timestamp = 1576381500, columns = vals\<rparr>], [])"
proof -
  from archive_block_test_success [of no_other] obtain tbl' where
    run: "archive_block no_other default_service ARCHIVE 1576381498000000 ([], archive_test_window) =
     Inr (tbl', [])" ..
  have "0 < arcint_secs default_service" "(0::int) \<le> 1576381498000000 + 5000000"
    "archive_test_window \<noteq> []"
    by (simp_all add: default_service_def archive_test_window_def)
  from archive_timestamp_on_grid [OF this run] run show ?thesis
    by (simp add: default_service_def timestamp_of_def)
qed

theorem archive_window_kept_on_failure_witness:
  "archive_block no_other default_service ARCHIVE 1576381498000000
     (archive_test_table, archive_test_window) = Inr (archive_test_table, archive_test_window)"
  using archive_window_kept_on_failure
    [of archive_test_window default_service 1576381498000000 no_other archive_test_table]
    archive_record_test_window save_archive_test_duplicate [of no_other]
  by (simp add: archive_test_window_nonempty)

section \<open>The store\<close>

lemma collect_map_Inr: "collect (map (\<lambda>x. Inr (f x)) xs) = Inr (map f xs)"
  by (induction xs) simp_all

lemma create_reading_from_row_float:
  "create_reading_from_row (PFloat (timestamp row) # map py_of_sql (columns row)) =
     Inr (row_reading row)"
  by (simp add: create_reading_from_row_def fromtimestamp_def row_reading_def)

lemma row_reading_time:
  "measurementTime (row_reading row) = PDatetime (round (timestamp row * 1000000))"
  by (simp add: create_reading_from_row_def fromtimestamp_def row_reading_def)

lemma round_timestamp_of: "round (timestamp_of t * 1000000) = t"
  by (simp add: timestamp_of_def)

lemma timestamp_of_inject: "(timestamp_of s = timestamp_of t) = (s = t)"
  by (simp add: timestamp_of_def)

lemma select_readings_rows:
  "select_readings rtype since_ts max_ts limit tbl =
     map (\<lambda>row. PFloat (timestamp row) # map py_of_sql (columns row))
       (selected_rows rtype since_ts max_ts limit tbl)"
  by (simp add: select_readings_def selected_rows_def Let_def)

lemma fetch_readings_rows:
  "fetch_readings rtype since_ts max_ts limit tbl =
     Inr (map row_reading (selected_rows rtype since_ts max_ts limit tbl))"
  by (simp add: fetch_readings_def select_readings_rows comp_def create_reading_from_row_float
      collect_map_Inr)

lemma sorted_selected_rows:
  "sorted (map timestamp (selected_rows rtype since_ts max_ts limit tbl))"
proof -
  have "sorted (map timestamp (take n (sort_key timestamp rows)))" for n and rows :: "db_row list"
    unfolding take_map [symmetric] by (rule sorted_wrt_take) simp
  then show ?thesis
    by (simp add: selected_rows_def Let_def split: option.splits)
qed

lemma set_selected_rows_all:
  "set (selected_rows rtype since_ts None None tbl) =
     {row \<in> set tbl. record_type row = rtype \<and> real_of_int since_ts < timestamp row}"
  by (auto simp: selected_rows_def)

lemma sorted_round_timestamps:
  "sorted (map timestamp rows) \<Longrightarrow> sorted (map (\<lambda>row. reading_time (row_reading row)) rows)"
proof (induction rows)
  case Nil
  show ?case by simp
next
  case (Cons row rows)
  then show ?case
    by (auto simp: reading_time_def row_reading_time intro!: round_mono)
qed

lemma fetch_readings_sorted:
  assumes "fetch_readings rtype since_ts max_ts limit tbl = Inr rs"
  shows "sorted (map reading_time rs)"
proof -
  from assms have "rs = map row_reading (selected_rows rtype since_ts max_ts limit tbl)"
    by (simp add: fetch_readings_rows)
  then have "map reading_time rs =
      map (\<lambda>row. reading_time (row_reading row)) (selected_rows rtype since_ts max_ts limit tbl)"
    by simp
  with sorted_round_timestamps [OF sorted_selected_rows] show ?thesis
    by simp
qed

lemma save_archive_reading_cases:
  assumes "measurementTime r = PDatetime t" and "insert_values other r = Inr vals"
  shows "save_archive_reading other r tbl =
           (if list_ex (\<lambda>row. record_type row = RecordType_ARCHIVE \<and> timestamp row = timestamp_of t) tbl
            then Inl IntegrityError else Inr (tbl @ [archive_row t vals]))"
  using assms
  by (simp add: save_archive_reading_def save_reading_def RecordType_ARCHIVE_def
      RecordType_CURRENT_def RecordType_TWO_MINUTE_def archive_row_def)

lemma save_archive_reading_Inr:
  assumes "measurementTime r = PDatetime t" and "save_archive_reading other r tbl = Inr tbl'"
  shows "\<exists>vals. insert_values other r = Inr vals \<and> tbl' = tbl @ [archive_row t vals] \<and>
           \<not> list_ex (\<lambda>row. record_type row = RecordType_ARCHIVE \<and> timestamp row = timestamp_of t) tbl"
  using assms
  by (auto simp: save_archive_reading_def save_reading_def RecordType_ARCHIVE_def
      RecordType_CURRENT_def RecordType_TWO_MINUTE_def archive_row_def Let_def
      split: sum.splits if_splits)

text \<open>
  C5, as amended. Let a first \<open>save_archive_reading\<close> succeed, and let a second
  reading be one whose values SQLite accepts. With the same timestamp the second call
  raises the primary-key violation of the table, \<open>sqlite3.IntegrityError\<close>, which the
  code passes on as it is, and by the rollback the first row stays as it is. With a
  different timestamp that is not yet in the archive, the second row is appended after
  the first, and \<open>fetch_archive_readings\<close> returns the archive readings in ascending
  order of time, both new ones among them when they lie after \<open>since_ts\<close>.
\<close>

theorem save_archive_twice:
  assumes "measurementTime r1 = PDatetime t1" and "measurementTime r2 = PDatetime t2"
    and "save_archive_reading other r1 tbl = Inr tbl1"
    and "insert_values other r2 = Inr vals2"
  shows "(t2 = t1 \<longrightarrow> save_archive_reading other r2 tbl1 = Inl IntegrityError) \<and>
         (t2 \<noteq> t1 \<and>
          \<not> list_ex (\<lambda>row. record_type row = RecordType_ARCHIVE \<and> timestamp row = timestamp_of t2) tbl \<longrightarrow>
          (\<exists>vals1 rs.
             save_archive_reading other r2 tbl1 = Inr (tbl @ [archive_row t1 vals1, archive_row t2 vals2]) \<and>
             fetch_archive_readings since_ts None None (tbl @ [archive_row t1 vals1, archive_row t2 vals2]) = Inr rs \<and>
             sorted (map reading_time rs) \<and>
             (real_of_int since_ts < timestamp_of t1 \<longrightarrow> row_reading (archive_row t1 vals1) \<in> set rs) \<and>
             (real_of_int since_ts < timestamp_of t2 \<longrightarrow> row_reading (archive_row t2 vals2) \<in> set rs)))"
proof -
  from save_archive_reading_Inr [OF assms(1,3)] obtain vals1 where
    v1: "insert_values other r1 = Inr vals1" and t1: "tbl1 = tbl @ [archive_row t1 vals1]"
    by blast
  have dup: "save_archive_reading other r2 tbl1 = Inl IntegrityError" if "t2 = t1"
    using that save_archive_reading_cases [OF assms(2,4), of tbl1] t1
    by (simp add: archive_row_def list_ex_iff)
  have ok: "\<exists>rs.
      save_archive_reading other r2 tbl1 = Inr (tbl @ [archive_row t1 vals1, archive_row t2 vals2]) \<and>
      fetch_archive_readings since_ts None None (tbl @ [archive_row t1 vals1, archive_row t2 vals2]) = Inr rs \<and>
      sorted (map reading_time rs) \<and>
      (real_of_int since_ts < timestamp_of t1 \<longrightarrow> row_reading (archive_row t1 vals1) \<in> set rs) \<and>
      (real_of_int since_ts < timestamp_of t2 \<longrightarrow> row_reading (archive_row t2 vals2) \<in> set rs)"
    if ne: "t2 \<noteq> t1"
      and free: "\<not> list_ex (\<lambda>row. record_type row = RecordType_ARCHIVE \<and> timestamp row = timestamp_of t2) tbl"
  proof -
    let ?tbl2 = "tbl @ [archive_row t1 vals1, archive_row t2 vals2]"
    from ne free have sv: "save_archive_reading other r2 tbl1 = Inr ?tbl2"
      using save_archive_reading_cases [OF assms(2,4), of tbl1] t1
      by (simp add: archive_row_def list_ex_iff timestamp_of_inject)
    obtain rs where rs: "fetch_archive_readings since_ts None None ?tbl2 = Inr rs"
      by (simp add: fetch_archive_readings_def fetch_readings_rows)
    then have srt: "sorted (map reading_time rs)"
      by (simp add: fetch_archive_readings_def fetch_readings_sorted)
    from rs have "real_of_int since_ts < timestamp_of t \<Longrightarrow> t = t1 \<and> vals = vals1 \<or> t = t2 \<and> vals = vals2 \<Longrightarrow>
        row_reading (archive_row t vals) \<in> set rs" for t vals
      by (auto simp: fetch_archive_readings_def fetch_readings_rows set_selected_rows_all
          archive_row_def)
    with sv rs srt show ?thesis by blast
  qed
  from dup ok show ?thesis by blast
qed


lemma insert_values_sample_one:
  "\<exists>vals. insert_values other (sample_one_reading t) = Inr vals"
  by (simp add: insert_values_def insert_params_def sample_one_reading_def sql_param_def
      stored_value_def plain_char_def)

lemma save_reading_one_row:
  assumes "save_reading other rtype r tbl = Inr tbl'"
    and "rtype = RecordType_CURRENT \<or> rtype = RecordType_TWO_MINUTE"
  shows "length (filter (\<lambda>row. record_type row = rtype) tbl') = 1"
  using assms
  by (auto simp: save_reading_def Let_def RecordType_CURRENT_def RecordType_TWO_MINUTE_def
      filter_empty_conv split: pyval.splits sum.splits if_splits)

lemma save_current_one_row:
  "save_current_reading other r tbl = Inr tbl' \<Longrightarrow>
   length (filter (\<lambda>row. record_type row = RecordType_CURRENT) tbl') = 1"
  by (simp add: save_current_reading_def save_reading_one_row)

lemma save_two_minute_one_row:
  "save_two_minute_reading other r tbl = Inr tbl' \<Longrightarrow>
   length (filter (\<lambda>row. record_type row = RecordType_TWO_MINUTE) tbl') = 1"
  by (simp add: save_two_minute_reading_def save_reading_one_row)

lemma save_current_reading_Inr:
  assumes "save_current_reading other r tbl = Inr tbl'" and "measurementTime r = PDatetime t"
  shows "\<exists>vals. insert_values other r = Inr vals \<and>
           tbl' = filter (\<lambda>row. record_type row \<noteq> RecordType_CURRENT) tbl @
                  [\<lparr>record_type = RecordType_CURRENT, timestamp = timestamp_of t, columns = vals\<rparr>]"
  using assms
  by (auto simp: save_current_reading_def save_reading_def RecordType_CURRENT_def
      RecordType_TWO_MINUTE_def Let_def split: sum.splits if_splits)

lemma fetch_current_after_save:
  assumes "save_current_reading other r tbl = Inr tbl'" and "measurementTime r = PDatetime t"
    and "0 < t"
  shows "\<exists>vals. insert_values other r = Inr vals \<and>
           fetch_current_readings tbl' =
             Inr [row_reading \<lparr>record_type = RecordType_CURRENT, timestamp = timestamp_of t,
                                columns = vals\<rparr>]"
proof -
  from save_current_reading_Inr [OF assms(1,2)] obtain vals where
    v: "insert_values other r = Inr vals"
    and t: "tbl' = filter (\<lambda>row. record_type row \<noteq> RecordType_CURRENT) tbl @
                  [\<lparr>record_type = RecordType_CURRENT, timestamp = timestamp_of t, columns = vals\<rparr>]"
    by blast
  have "filter (\<lambda>row. record_type row = RecordType_CURRENT \<and> real_of_int 0 < timestamp row)
          (filter (\<lambda>row. record_type row \<noteq> RecordType_CURRENT) tbl) = []"
    by (simp add: filter_empty_conv)
  with assms(3) have "selected_rows RecordType_CURRENT 0 None None tbl' =
      [\<lparr>record_type = RecordType_CURRENT, timestamp = timestamp_of t, columns = vals\<rparr>]"
    by (simp add: selected_rows_def t timestamp_of_def)
  with v show ?thesis
    by (simp add: fetch_current_readings_def fetch_readings_rows)
qed

lemma absent_stored_as_text: "stored_value other aff (sql_param PNone) = Inr (SText ''NULL'')"
  by (cases aff) (simp_all add: stored_value_def sql_param_def plain_char_def digit_char_def)

text \<open>
  C2. A save of type \<open>CURRENT\<close> or \<open>TWO_MINUTE\<close> leaves exactly one row of its
  type, and \<open>fetch_current_readings\<close> then returns the one reading built from the
  row just written (the lemmas above). But that reading is not the saved one when a
  field is absent: \<open>save_reading\<close> formats the placeholder
  \<open>'NULL'\<close> with \<^verbatim>\<open>%r\<close>, which quotes it, so the column holds the text \<open>NULL\<close> and
  not SQL \<open>NULL\<close>, and the reading that comes back has the string \<open>'NULL'\<close> where
  \<open>None\<close> was saved.
\<close>

theorem save_current_absent_channel:
  "\<exists>tbl. save_current_reading other absent_wifi_reading [] = Inr tbl \<and>
     length (filter (\<lambda>row. record_type row = RecordType_CURRENT) tbl) = 1 \<and>
     fetch_current_readings tbl = Inr [absent_wifi_reading\<lparr>wifi := PStr ''NULL''\<rparr>] \<and>
     wifi absent_wifi_reading = PNone"
  by (simp add: save_current_reading_def save_reading_def absent_wifi_reading_def
      sample_one_reading_def insert_values_def insert_params_def sql_param_def stored_value_def
      plain_char_def digit_char_def RecordType_CURRENT_def RecordType_TWO_MINUTE_def
      fetch_current_readings_def fetch_readings_def select_readings_def
      create_reading_from_row_def fromtimestamp_def timestamp_of_def)

theorem save_archive_duplicate_counterexample:
  "\<exists>tbl1. save_archive_reading no_other (sample_one_reading 1576381800000000) [] = Inr tbl1 \<and>
     save_archive_reading no_other (sample_one_reading 1576381800000000) tbl1 = Inl IntegrityError \<and>
     class_name IntegrityError \<noteq> ''DuplicateArchiveRecord''"
proof -
  obtain vals where v: "insert_values no_other (sample_one_reading 1576381800000000) = Inr vals"
    using insert_values_sample_one by blast
  have m: "measurementTime (sample_one_reading 1576381800000000) = PDatetime 1576381800000000"
    by (simp add: sample_one_reading_def)
  from save_archive_reading_cases [OF m v, of "[]"]
  have "save_archive_reading no_other (sample_one_reading 1576381800000000) [] =
      Inr [archive_row 1576381800000000 vals]"
    by simp
  moreover from save_archive_reading_cases [OF m v, of "[archive_row 1576381800000000 vals]"]
  have "save_archive_reading no_other (sample_one_reading 1576381800000000)
      [archive_row 1576381800000000 vals] = Inl IntegrityError"
    by (simp add: archive_row_def)
  moreover have "class_name IntegrityError \<noteq> ''DuplicateArchiveRecord''"
    by (simp add: class_name_def)
  ultimately show ?thesis by blast
qed

theorem save_archive_twice_witness:
  "\<exists>tbl1. save_archive_reading no_other (sample_one_reading 1576381800000000) [] = Inr tbl1 \<and>
     save_archive_reading no_other (sample_one_reading 1576381800000000) tbl1 = Inl IntegrityError \<and>
     (\<exists>tbl2 rs. save_archive_reading no_other (sample_one_reading 1576381500000000) tbl1 = Inr tbl2 \<and>
        fetch_archive_readings 0 None None tbl2 = Inr rs \<and> sorted (map reading_time rs) \<and>
        1576381500000000 \<in> set (map reading_time rs) \<and>
        1576381800000000 \<in> set (map reading_time rs))"
proof -
  let ?late = "sample_one_reading 1576381800000000"
  let ?early = "sample_one_reading 1576381500000000"
  obtain valsL where vL: "insert_values no_other ?late = Inr valsL"
    using insert_values_sample_one by blast
  obtain valsE where vE: "insert_values no_other ?early = Inr valsE"
    using insert_values_sample_one by blast
  have mL: "measurementTime ?late = PDatetime 1576381800000000"
    and mE: "measurementTime ?early = PDatetime 1576381500000000"
    by (simp_all add: sample_one_reading_def)
  from save_archive_reading_cases [OF mL vL, of "[]"]
  have s1: "save_archive_reading no_other ?late [] = Inr [archive_row 1576381800000000 valsL]"
    by simp
  from save_archive_twice [OF mL mL s1 vL, of 0]
  have dup: "save_archive_reading no_other ?late [archive_row 1576381800000000 valsL] =
      Inl IntegrityError"
    by simp
  from save_archive_twice [OF mL mE s1 vE, of 0]
  obtain vals1 rs where
    s2: "save_archive_reading no_other ?early [archive_row 1576381800000000 valsL] =
      Inr [archive_row 1576381800000000 vals1, archive_row 1576381500000000 valsE]"
    and f: "fetch_archive_readings 0 None None
      [archive_row 1576381800000000 vals1, archive_row 1576381500000000 valsE] = Inr rs"
    and srt: "sorted (map reading_time rs)"
    and inL: "row_reading (archive_row 1576381800000000 vals1) \<in> set rs"
    and inE: "row_reading (archive_row 1576381500000000 valsE) \<in> set rs"
    by (auto simp: timestamp_of_def)
  have "reading_time (row_reading (archive_row t vals)) = t" for t vals
    by (simp add: reading_time_def row_reading_time archive_row_def round_timestamp_of)
  with inL inE have "1576381800000000 \<in> set (map reading_time rs)"
    "1576381500000000 \<in> set (map reading_time rs)"
    by force+
  with s1 dup s2 f srt show ?thesis by blast
qed

section \<open>compute_avg leaves its argument alone\<close>

lemma copy_copy_props:
  assumes "copy_copy s a = (a', s')"
  shows "a' = next_obj s" and "next_obj s' = Suc (next_obj s)" and "lists s' = lists s"
    and "next_list s' = next_list s" and "objs s' a' = objs s a"
    and "\<And>b. b \<noteq> next_obj s \<Longrightarrow> objs s' b = objs s b"
  using assms by (auto simp: copy_copy_def)

lemma slice_from_1_props:
  assumes "slice_from_1 s l = (l', s')"
  shows "l' = next_list s" and "next_list s' = Suc (next_list s)" and "objs s' = objs s"
    and "next_obj s' = next_obj s" and "lists s' l' = tl (lists s l)"
    and "\<And>k. k \<noteq> next_list s \<Longrightarrow> lists s' k = lists s k"
  using assms by (auto simp: slice_from_1_def)

lemma sum_loop_store_frame:
  assumes "sum_loop_store s summed rest = Inr s'"
  shows "lists s' = lists s \<and> next_obj s' = next_obj s \<and> next_list s' = next_list s \<and>
         (\<forall>b. b \<noteq> summed \<longrightarrow> objs s' b = objs s b)"
  using assms
proof (induction rest arbitrary: s)
  case Nil
  then show ?case by simp
next
  case (Cons a rest)
  then obtain v where v: "loop_body (objs s summed) (objs s a) = Inr v"
    and run: "sum_loop_store (s\<lparr>objs := (objs s)(summed := v)\<rparr>) summed rest = Inr s'"
    by (auto split: sum.splits)
  from Cons.IH [OF run] show ?case by simp
qed

lemma sum_loop_store_value:
  assumes "summed \<notin> set rest"
  shows "(sum_loop_store s summed rest = Inr s') =
         (sum_loop (objs s summed) (map (objs s) rest) = Inr (objs s' summed) \<and>
          s' = s\<lparr>objs := (objs s)(summed := objs s' summed)\<rparr>)"
  using assms
proof (induction rest arbitrary: s)
  case Nil
  show ?case
  proof
    assume "sum_loop_store s summed [] = Inr s'"
    then show "sum_loop (objs s summed) (map (objs s) []) = Inr (objs s' summed) \<and>
          s' = s\<lparr>objs := (objs s)(summed := objs s' summed)\<rparr>"
      by auto
  next
    assume "sum_loop (objs s summed) (map (objs s) []) = Inr (objs s' summed) \<and>
          s' = s\<lparr>objs := (objs s)(summed := objs s' summed)\<rparr>"
    then have "objs s summed = objs s' summed" and "s' = s\<lparr>objs := (objs s)(summed := objs s' summed)\<rparr>"
      by simp_all
    then have "s' = s" by (metis fun_upd_triv store.surjective store.update_convs(1))
    then show "sum_loop_store s summed [] = Inr s'" by simp
  qed
next
  case (Cons a rest)
  then have ne: "a \<noteq> summed" and notin: "summed \<notin> set rest" by auto
  show ?case
  proof (cases "loop_body (objs s summed) (objs s a)")
    case (Inl e)
    then show ?thesis by simp
  next
    case (Inr v)
    define s1 where "s1 = s\<lparr>objs := (objs s)(summed := v)\<rparr>"
    have o1: "objs s1 summed = v" by (simp add: s1_def)
    from notin have o2: "map (objs s1) rest = map (objs s) rest"
      by (auto simp: s1_def)
    have u: "s1\<lparr>objs := (objs s1)(summed := w)\<rparr> = s\<lparr>objs := (objs s)(summed := w)\<rparr>" for w
      by (simp add: s1_def)
    from Inr have step: "sum_loop_store s summed (a # rest) = sum_loop_store s1 summed rest"
      by (simp add: s1_def)
    from Inr ne have pure: "sum_loop (objs s summed) (map (objs s) (a # rest)) =
        sum_loop v (map (objs s) rest)"
      by simp
    from Cons.IH [OF notin, of s1] show ?thesis
      by (simp only: step pure o1 o2 u)
  qed
qed


lemma compute_avg_store_steps:
  assumes "lists s readings = first # rest"
  shows "compute_avg_store s readings =
     (case copy_copy s first of
        (summed_reading, s1) \<Rightarrow>
          (case slice_from_1 s1 readings of
             (sl, s2) \<Rightarrow>
               (case sum_loop_store s2 summed_reading (lists s2 sl) of
                  Inl e \<Rightarrow> Inl e
                | Inr s3 \<Rightarrow>
                    (let count = real (length (lists s3 readings)) in
                     case copy_copy s3 summed_reading of
                       (avg_reading, s4) \<Rightarrow>
                         (case run_lines (map (div_line count) channels) (objs s4 avg_reading) of
                            Inl e \<Rightarrow> Inl e
                          | Inr v \<Rightarrow>
                              Inr (avg_reading, s4\<lparr>objs := (objs s4)(avg_reading := v)\<rparr>))))))"
  using assms by (simp add: compute_avg_store_def)

lemma compute_avg_store_run:
  assumes wf1: "readings < next_list s"
    and wf2: "list_all (\<lambda>a. a < next_obj s) (lists s readings)"
    and run: "compute_avg_store s readings = Inr (avg_reading, s')"
  shows "next_obj s \<le> avg_reading \<and> avg_reading < next_obj s' \<and>
         compute_avg (map (objs s) (lists s readings)) = Inr (objs s' avg_reading) \<and>
         (\<forall>a<next_obj s. objs s' a = objs s a) \<and> (\<forall>l<next_list s. lists s' l = lists s l)"
proof -
  from run obtain first rest where fr: "lists s readings = first # rest"
    by (cases "lists s readings") (simp_all add: compute_avg_store_def)
  obtain sm s1 where c1: "copy_copy s first = (sm, s1)" by (cases "copy_copy s first")
  obtain sl s2 where sl: "slice_from_1 s1 readings = (sl, s2)" by (cases "slice_from_1 s1 readings")
  from run fr c1 sl obtain s3 where loop: "sum_loop_store s2 sm (lists s2 sl) = Inr s3"
    by (auto simp: compute_avg_store_steps split: sum.splits)
  obtain av s4 where c2: "copy_copy s3 sm = (av, s4)" by (cases "copy_copy s3 sm")
  from run fr c1 sl loop c2 obtain v where
    dv: "run_lines (map (div_line (real (length (lists s3 readings)))) channels) (objs s4 av) = Inr v"
    and res: "avg_reading = av" "s' = s4\<lparr>objs := (objs s4)(av := v)\<rparr>"
    by (auto simp: compute_avg_store_steps Let_def split: sum.splits)
  note p1 = copy_copy_props [OF c1] and p2 = slice_from_1_props [OF sl]
    and p3 = sum_loop_store_frame [OF loop] and p4 = copy_copy_props [OF c2]
  from wf1 p1(4) have rl: "readings \<noteq> next_list s1" by simp
  have l2: "lists s2 sl = rest"
    using p2(5) p2(1) p1(3) fr by simp
  from wf2 fr have lt: "first < next_obj s" "\<forall>a\<in>set rest. a < next_obj s"
    by (simp_all add: list_all_iff)
  then have notin: "sm \<notin> set rest" using p1(1) by auto
  have o2: "objs s2 sm = objs s first" using p2(3) p1(5) by simp
  have m2: "map (objs s2) rest = map (objs s) rest"
    using lt(2) p2(3) p1(6) by auto
  from loop l2 notin have "sum_loop (objs s2 sm) (map (objs s2) rest) = Inr (objs s3 sm)"
    by (simp add: sum_loop_store_value)
  then have pure: "sum_loop (objs s first) (map (objs s) rest) = Inr (objs s3 sm)"
    by (simp only: o2 m2)
  have lists3: "lists s3 readings = first # rest"
    using p3 p2(6) [OF rl] p1(3) p1(4) fr by simp
  have av: "av = Suc (next_obj s)"
    using p4(1) p3 p2(4) p1(2) by simp
  have o4: "objs s4 av = objs s3 sm" using p4(5) by simp
  from dv lists3 o4 pure fr have avg_value: "compute_avg (map (objs s) (lists s readings)) = Inr v"
    by (simp add: compute_avg_def)
  have frame_objs: "objs s' a = objs s a" if "a < next_obj s" for a
  proof -
    from that av p1(1) have ne: "a \<noteq> av" "a \<noteq> sm" "a \<noteq> next_obj s" by simp_all
    from that p3 p2(4) p1(2) have "a \<noteq> next_obj s3" by simp
    with ne have "objs s' a = objs s3 a" using res(2) p4(6) by simp
    also from ne p3 have "\<dots> = objs s2 a" by simp
    also from ne p2(3) p1(6) have "\<dots> = objs s a" by simp
    finally show ?thesis .
  qed
  have frame_lists: "lists s' l = lists s l" if "l < next_list s" for l
  proof -
    from that p1(4) have "l \<noteq> next_list s1" by simp
    from p2(6) [OF this] res(2) p4(3) p3 p1(3) show ?thesis by simp
  qed
  have "next_obj s' = Suc av" using res(2) p4(2) p4(1) by simp
  with av avg_value res frame_objs frame_lists show ?thesis by simp
qed

lemma compute_avg_store_returns:
  assumes wf1: "readings < next_list s"
    and wf2: "list_all (\<lambda>a. a < next_obj s) (lists s readings)"
    and ne: "lists s readings \<noteq> []"
    and ty: "list_all (\<lambda>a. typed_channels (objs s a)) (lists s readings)"
  shows "\<exists>avg_reading s'. compute_avg_store s readings = Inr (avg_reading, s')"
proof -
  from ne obtain first rest where fr: "lists s readings = first # rest"
    by (cases "lists s readings") simp_all
  obtain sm s1 where c1: "copy_copy s first = (sm, s1)" by (cases "copy_copy s first")
  obtain sl s2 where sl: "slice_from_1 s1 readings = (sl, s2)" by (cases "slice_from_1 s1 readings")
  note p1 = copy_copy_props [OF c1] and p2 = slice_from_1_props [OF sl]
  have l2: "lists s2 sl = rest"
    using p2(5) p2(1) p1(3) fr by simp
  from wf2 fr have lt: "\<forall>a\<in>set rest. a < next_obj s"
    by (simp add: list_all_iff)
  then have notin: "sm \<notin> set rest" using p1(1) by auto
  have o2: "objs s2 sm = objs s first" using p2(3) p1(5) by simp
  have m2: "map (objs s2) rest = map (objs s) rest"
    using lt p2(3) p1(6) by auto
  from ty fr have tf: "typed_channels (objs s first)"
    and tr: "list_all typed_channels (map (objs s) rest)"
    by (simp_all add: list_all_iff)
  define summed where "summed = foldl accumulate (objs s first) (map (objs s) rest)"
  from tf tr have pure: "sum_loop (objs s first) (map (objs s) rest) = Inr summed"
    by (simp add: sum_loop_typed summed_def)
  from tf have ts: "typed_channels summed"
    by (simp add: typed_channels_foldl summed_def)
  define s3 where "s3 = s2\<lparr>objs := (objs s2)(sm := summed)\<rparr>"
  from pure have pure2: "sum_loop (objs s2 sm) (map (objs s2) rest) = Inr summed"
    by (simp only: o2 m2)
  have "sum_loop_store s2 sm rest = Inr s3"
  proof (rule sum_loop_store_value [OF notin, THEN iffD2], intro conjI)
    from pure2 show "sum_loop (objs s2 sm) (map (objs s2) rest) = Inr (objs s3 sm)"
      by (simp add: s3_def)
    show "s3 = s2\<lparr>objs := (objs s2)(sm := objs s3 sm)\<rparr>"
      by (simp add: s3_def)
  qed
  then have loop: "sum_loop_store s2 sm (lists s2 sl) = Inr s3"
    by (simp only: l2)
  obtain av s4 where c2: "copy_copy s3 sm = (av, s4)" by (cases "copy_copy s3 sm")
  from copy_copy_props(5) [OF c2] have "objs s4 av = summed" by (simp add: s3_def)
  with ts have "\<exists>v. run_lines (map (div_line (real (length (lists s3 readings)))) channels)
      (objs s4 av) = Inr v" if "lists s3 readings \<noteq> []"
    using that by (simp add: div_lines_typed)
  moreover from wf1 p1(4) have "readings \<noteq> next_list s1" by simp
  from p2(6) [OF this] p1(3) fr have "lists s3 readings = first # rest"
    by (simp add: s3_def)
  ultimately obtain v where
    "run_lines (map (div_line (real (length (lists s3 readings)))) channels) (objs s4 av) = Inr v"
    by auto
  with fr c1 sl loop c2 show ?thesis
    by (simp add: compute_avg_store_steps Let_def)
qed

text \<open>
  C10. In a store where the list \<open>readings\<close> and its elements are allocated,
  \<open>compute_avg\<close> returns for a non-empty list with typed channels, and whenever it
  returns, the reading it returns is a new object (its reference was not allocated
  before the call), every object and every list allocated before the call, the
  argument list and its elements among them, is as it was, and the new object holds
  the value that \<open>compute_avg\<close> computes from the elements' values.
\<close>

theorem compute_avg_store_frame:
  assumes "readings < next_list s"
    and "list_all (\<lambda>a. a < next_obj s) (lists s readings)"
  shows "(lists s readings \<noteq> [] \<and> list_all (\<lambda>a. typed_channels (objs s a)) (lists s readings) \<longrightarrow>
            (\<exists>avg_reading s'. compute_avg_store s readings = Inr (avg_reading, s'))) \<and>
         (\<forall>avg_reading s'. compute_avg_store s readings = Inr (avg_reading, s') \<longrightarrow>
            next_obj s \<le> avg_reading \<and> avg_reading < next_obj s' \<and>
            compute_avg (map (objs s) (lists s readings)) = Inr (objs s' avg_reading) \<and>
            (\<forall>a<next_obj s. objs s' a = objs s a) \<and>
            (\<forall>l<next_list s. lists s' l = lists s l))"
  using compute_avg_store_returns [OF assms] compute_avg_store_run [OF assms]
  by blast

theorem compute_avg_store_frame_witness:
  "\<exists>avg_reading s'. compute_avg_store test_store 0 = Inr (avg_reading, s') \<and>
     2 \<le> avg_reading \<and> objs s' 0 = avg_test_reading1 \<and> objs s' 1 = avg_test_reading2 \<and>
     lists s' 0 = [0, 1] \<and>
     compute_avg [avg_test_reading1, avg_test_reading2] = Inr (objs s' avg_reading)"
proof -
  have wf: "0 < next_list test_store"
    "list_all (\<lambda>a. a < next_obj test_store) (lists test_store 0)"
    by (simp_all add: test_store_def)
  have ty: "lists test_store 0 \<noteq> []"
    "list_all (\<lambda>a. typed_channels (objs test_store a)) (lists test_store 0)"
    by (simp_all add: test_store_def typed_test_readings)
  from compute_avg_store_frame [OF wf] ty obtain avg_reading s' where
    run: "compute_avg_store test_store 0 = Inr (avg_reading, s')" by blast
  with compute_avg_store_frame [OF wf] have
    "next_obj test_store \<le> avg_reading \<and>
     compute_avg (map (objs test_store) (lists test_store 0)) = Inr (objs s' avg_reading) \<and>
     (\<forall>a<next_obj test_store. objs s' a = objs test_store a) \<and>
     (\<forall>l<next_list test_store. lists s' l = lists test_store l)"
    by blast
  then have "2 \<le> avg_reading \<and> objs s' 0 = avg_test_reading1 \<and> objs s' 1 = avg_test_reading2 \<and>
     lists s' 0 = [0, 1] \<and>
     compute_avg [avg_test_reading1, avg_test_reading2] = Inr (objs s' avg_reading)"
    by (simp add: test_store_def)
  with run show ?thesis by blast
qed

section \<open>Decoding the sensor's response\<close>

lemma run_lines_Inr_Cons:
  "(run_lines (f # fs) s = Inr r) = (\<exists>s'. f s = Inr s' \<and> run_lines fs s' = Inr r)"
  by (cases "f s") simp_all

lemma set_field_Inr:
  "(set_field upd rhs s = Inr s') = (\<exists>v. rhs = Inr v \<and> s' = upd (\<lambda>_. v) s)"
  by (cases rhs) (auto simp: set_field_def)

lemma float_field_Inr:
  "float_field float_of_str j key = Inr v \<Longrightarrow> \<exists>w. subscript j key = Inr w"
  by (cases "subscript j key") (simp_all add: float_field_def)

lemma parse_response_needs_every_key:
  assumes "parse_response float_of_str now (Some j) = Inr r"
  shows "list_all (\<lambda>key. \<exists>v. subscript j key = Inr v) reading_keys"
proof -
  from assms have
    "(\<exists>v. subscript j ''serialno'' = Inr v) \<and>
     (\<exists>v. float_field float_of_str j ''wifi'' = Inr v) \<and>
     (\<exists>v. float_field float_of_str j ''pm01'' = Inr v) \<and>
     (\<exists>v. float_field float_of_str j ''pm02'' = Inr v) \<and>
     (\<exists>v. float_field float_of_str j ''pm10'' = Inr v) \<and>
     (\<exists>v. float_field float_of_str j ''pm02Compensated'' = Inr v) \<and>
     (\<exists>v. float_field float_of_str j ''pm01Standard'' = Inr v) \<and>
     (\<exists>v. float_field float_of_str j ''pm02Standard'' = Inr v) \<and>
     (\<exists>v. float_field float_of_str j ''pm10Standard'' = Inr v) \<and>
     (\<exists>v. float_field float_of_str j ''rco2'' = Inr v) \<and>
     (\<exists>v. float_field float_of_str j ''pm003Count'' = Inr v) \<and>
     (\<exists>v. float_field float_of_str j ''pm005Count'' = Inr v) \<and>
     (\<exists>v. float_field float_of_str j ''pm01Count'' = Inr v) \<and>
     (\<exists>v. float_field float_of_str j ''pm02Count'' = Inr v) \<and>
     (\<exists>v. float_field float_of_str j ''pm50Count'' = Inr v) \<and>
     (\<exists>v. float_field float_of_str j ''pm10Count'' = Inr v) \<and>
     (\<exists>v. float_field float_of_str j ''atmp'' = Inr v) \<and>
     (\<exists>v. float_field float_of_str j ''atmpCompensated'' = Inr v) \<and>
     (\<exists>v. float_field float_of_str j ''rhum'' = Inr v) \<and>
     (\<exists>v. float_field float_of_str j ''rhumCompensated'' = Inr v) \<and>
     (\<exists>v. float_field float_of_str j ''tvocIndex'' = Inr v) \<and>
     (\<exists>v. float_field float_of_str j ''tvocRaw'' = Inr v) \<and>
     (\<exists>v. float_field float_of_str j ''noxIndex'' = Inr v) \<and>
     (\<exists>v. float_field float_of_str j ''noxRaw'' = Inr v) \<and>
     (\<exists>v. subscript j ''boot'' = Inr v) \<and>
     (\<exists>v. subscript j ''bootCount'' = Inr v) \<and>
     (\<exists>v. subscript j ''ledMode'' = Inr v) \<and>
     (\<exists>v. subscript j ''firmware'' = Inr v) \<and>
     (\<exists>v. subscript j ''model'' = Inr v)"
    unfolding parse_response_def option.case run_lines_Inr_Cons set_field_Inr
    by blast
  then show ?thesis
    unfolding reading_keys_def list_all_iff list.set
    by (blast dest: float_field_Inr)
qed

lemma parse_response_missing_key:
  assumes "key \<in> set reading_keys" and "map_of items key = None"
  shows "\<exists>e. parse_response float_of_str now (Some (PDict items)) = Inl e"
proof (cases "parse_response float_of_str now (Some (PDict items))")
  case (Inl e)
  then show ?thesis by blast
next
  case (Inr r)
  from parse_response_needs_every_key [OF Inr] assms(1)
  obtain v where "subscript (PDict items) key = Inr v"
    unfolding list_all_iff by blast
  with assms(2) show ?thesis by (simp add: subscript_def)
qed

lemma parse_response_sample_one:
  "parse_response float_of_str now (Some sample_one_payload) = Inr (sample_one_reading now)"
  by (simp add: parse_response_def sample_one_payload_def sample_one_reading_def set_field_def
      float_field_def subscript_def py_float_def blank_reading_def)

text \<open>
  C7. The specification asks that a well-formed payload with \<open>serialno\<close> decodes, a channel
  the sensor left out becoming an absent field. The code subscripts every key, so a
  payload that omits one raises \<open>KeyError\<close>: the Open Air sample quoted in the source
  is rejected at \<open>pm50Count\<close>. (Only a key present with the value \<open>null\<close> gives an
  absent field.)
\<close>

theorem parse_response_open_air_sample:
  "parse_response float_of_str now (Some sample_open_air_payload) = Inl KeyError"
  by (simp add: parse_response_def sample_open_air_payload_def set_field_def
      float_field_def subscript_def py_float_def blank_reading_def)

section \<open>Sanity check\<close>

lemma type_ok_check: "type_ok isinstance_of v \<Longrightarrow> (v \<noteq> PNone \<and> \<not> isinstance_of v) = False"
  by (auto simp: type_ok_def)

lemma is_sane_stale:
  assumes "measurementTime reading = PDatetime t"
    and "\<bar>timestamp_of now - timestamp_of t\<bar> > 20"
  shows "is_sane fmt_f now reading =
           (False, ''measurementTime more than 20s off: '' @ fmt_f (timestamp_of now - timestamp_of t))"
  using assms by (simp add: is_sane_def)

lemma is_sane_fresh:
  assumes "measurementTime reading = PDatetime t"
    and "\<bar>timestamp_of now - timestamp_of t\<bar> \<le> 20"
    and "declared_types reading"
  shows "is_sane fmt_f now reading = (True, [])"
  using assms by (simp add: is_sane_def declared_types_def channels_def type_ok_check)

text \<open>
  C8. A reading whose time is more than 20 seconds from the clock, in either
  direction, is rejected with a non-empty reason; a reading whose time is within 20
  seconds and whose present fields have their declared types is accepted with the
  empty reason.
\<close>

theorem is_sane_twenty_seconds:
  "(\<forall>t. measurementTime reading = PDatetime t \<and> \<bar>timestamp_of now - timestamp_of t\<bar> > 20 \<longrightarrow>
        fst (is_sane fmt_f now reading) = False \<and> snd (is_sane fmt_f now reading) \<noteq> []) \<and>
   (\<forall>t. measurementTime reading = PDatetime t \<and> \<bar>timestamp_of now - timestamp_of t\<bar> \<le> 20 \<and>
        declared_types reading \<longrightarrow>
        is_sane fmt_f now reading = (True, []))"
  by (simp add: is_sane_stale is_sane_fresh)

lemma declared_types_sample_one: "declared_types (sample_one_reading t)"
  by (simp add: declared_types_def sample_one_reading_def channels_def type_ok_def)

theorem is_sane_twenty_seconds_witness:
  "is_sane (\<lambda>x. []) 1576381390000000 (sample_one_reading 1576381385000000) = (True, []) \<and>
   fst (is_sane (\<lambda>x. []) 1576381390000000 (sample_one_reading 1576381420000000)) = False \<and>
   snd (is_sane (\<lambda>x. []) 1576381390000000 (sample_one_reading 1576381420000000)) \<noteq> []"
  using is_sane_twenty_seconds [of "sample_one_reading 1576381385000000" 1576381390000000 "\<lambda>x. []"]
    is_sane_twenty_seconds [of "sample_one_reading 1576381420000000" 1576381390000000 "\<lambda>x. []"]
    declared_types_sample_one [of 1576381385000000]
  by (simp add: timestamp_of_def sample_one_reading_def)

end
